theory Spec2Isabelle
  imports Complex_Main "HOL-Library.Sublist"
begin

section \<open>The resilience notebook: workload and failure injection\<close>

subsection \<open>The workload (cells 8, 9 and 17 of resilience.ipynb)\<close>

text \<open>Cells are counted from 0, text cells included.\<close>

text \<open>
  \<^verbatim>\<open>
  def multiply_by_two(x):
      sleep(0.02)
      return 2 * x

  N = 400
  x = db.from_sequence(range(N), npartitions=N // 2)
  mults = x.map(multiply_by_two)
  summed = mults.sum()
  ...
  print(f"... {summed.result()}\t(should be {N * (N-1)})")
  \<close>
  Python integers are unbounded, so they are \<^typ>\<open>int\<close>. The call to \<open>sleep\<close> only
  takes time; the value returned is \<open>2 * x\<close>.
\<close>

definition multiply_by_two :: "int \<Rightarrow> int" where
  "multiply_by_two x = 2 * x"


text \<open>
  The three bag operations are the library's, not the repository's; they are taken with
  their documented meaning. A bag is a list of partitions.

  \<open>from_sequence(seq, npartitions=k)\<close> spreads the elements of the sequence, in order,
  over partitions. With \<open>k = 0\<close> the library has no partition size to cut the sequence
  by and raises a \<open>TypeError\<close>. With \<open>k > 0\<close> it returns a bag; how many elements go
  into which partition is the library's choice, so the bag may be any list of partitions
  whose concatenation is the sequence. The outcome of the call is therefore not a
  function of its arguments: \<open>from_sequence xs k r\<close> says that \<open>r\<close> is a possible outcome.
  (A negative \<open>k\<close> has no outcome here; the cell never passes one for a natural \<open>N\<close>.)

  \<open>map\<close> applies the function to every element of every partition. \<open>sum\<close> adds up
  each partition and then adds up the partial sums.
\<close>

datatype error = TypeError | KilledWorker

type_synonym bag = "int list list"


definition bag_map :: "(int \<Rightarrow> int) \<Rightarrow> bag \<Rightarrow> bag" where
  "bag_map f x = map (map f) x"

definition bag_sum :: "bag \<Rightarrow> int" where
  "bag_sum x = sum_list (map sum_list x)"

text \<open>The value of \<open>x.map(multiply_by_two).sum()\<close> for a bag \<open>x\<close>.\<close>

definition summed :: "bag \<Rightarrow> int" where
  "summed x = bag_sum (bag_map multiply_by_two x)"


subsection \<open>Killing workers (cells 12, 13 and 15 of resilience.ipynb)\<close>

text \<open>
  \<^verbatim>\<open>
  all_current_workers = [w.pid for w in cluster.scheduler.workers.values()]
  non_preemptible_workers = all_current_workers[:2]

  def kill_a_worker():
      preemptible_workers = [
          w.pid for w in cluster.scheduler.workers.values()
          if w.pid not in non_preemptible_workers]
      if preemptible_workers:
          os.kill(random.choice(preemptible_workers), 15)
  \<close>
  The state of the cluster that the function reads is the list of the process ids of the
  scheduler's workers at the time of the call. \<open>random.choice\<close> returns the element at a
  random index below the length of its (non-empty) argument; the random draw is the
  parameter \<open>r\<close>, reduced to such an index. The only effect of the function is the
  signal it sends: \<open>Some (pid, signal)\<close>, or \<open>None\<close> when it sends nothing.
\<close>

type_synonym pid = int

definition non_preemptible_workers :: "pid list \<Rightarrow> pid list" where
  "non_preemptible_workers all_current_workers = take 2 all_current_workers"

definition preemptible_workers :: "pid list \<Rightarrow> pid list \<Rightarrow> pid list" where
  "preemptible_workers np workers = filter (\<lambda>p. p \<notin> set np) workers"

definition random_choice :: "nat \<Rightarrow> 'a list \<Rightarrow> 'a" where
  "random_choice r xs = xs ! (r mod length xs)"

definition kill_a_worker :: "pid list \<Rightarrow> pid list \<Rightarrow> nat \<Rightarrow> (pid \<times> nat) option" where
  "kill_a_worker np workers r =
     (if preemptible_workers np workers \<noteq> []
      then Some (random_choice r (preemptible_workers np workers), 15)
      else None)"

text \<open>
  \<^verbatim>\<open>
  while not summed.done():
      kill_a_worker()
      sleep(3.0)
  \<close>
  Whether the computation is done, which workers the scheduler has and what the random
  generator draws are decided outside the notebook. One round of the loop is given by
  the workers and the draw it sees; the loop runs through the rounds that happen before
  the computation is done and sends the signals collected here.
\<close>

fun kill_loop :: "pid list \<Rightarrow> (pid list \<times> nat) list \<Rightarrow> (pid \<times> nat) list" where
  "kill_loop np [] = []"
| "kill_loop np ((workers, r) # rounds) =
     (case kill_a_worker np workers r of
        None \<Rightarrow> kill_loop np rounds
      | Some s \<Rightarrow> s # kill_loop np rounds)"

subsection \<open>The computation while workers are killed (cells 1, 15 and 17)\<close>

text \<open>
  What the cluster does when a worker dies is the library's. The notebook's text
  (cell 1) describes it: "Whenever a worker shuts down, the scheduler will increment the
  suspiciousness counter of all tasks that were assigned (not necessarily computing) to
  the worker in question. Whenever the suspiciousness of a task exceeds a certain
  threshold (3 by default), the task will be considered broken." A task that is not
  broken is computed again on another worker and has the value of its function.

  The library cuts the computation into tasks, for the partitions and for adding up;
  how many there are is its choice, the parameter \<open>ntasks\<close>, and they are numbered from
  0. A round of the loop of cell 15 is given by the workers the scheduler has, the
  random draw, and the worker each task is assigned to at that moment (\<open>None\<close> for a
  task that is assigned to none). A round hits a task when \<open>kill_a_worker\<close> sends its
  signal to the worker the task is assigned to.
\<close>

type_synonym round = "pid list \<times> nat \<times> pid option list"

definition hit :: "pid list \<Rightarrow> round \<Rightarrow> nat \<Rightarrow> bool" where
  "hit np rnd i =
     (case rnd of (workers, r, assigned) \<Rightarrow>
        (case kill_a_worker np workers r of
           None \<Rightarrow> False
         | Some (p, s) \<Rightarrow> i < length assigned \<and> assigned ! i = Some p))"

definition suspiciousness :: "pid list \<Rightarrow> round list \<Rightarrow> nat \<Rightarrow> nat" where
  "suspiciousness np rounds i = length (filter (\<lambda>rnd. hit np rnd i) rounds)"

text \<open>
  \<open>summed.result()\<close>: the error of a broken task, or else the sum. When the call of
  \<open>from_sequence\<close> has raised, there is no bag and the error is all there is.
\<close>

definition compute :: "nat \<Rightarrow> pid list \<Rightarrow> round list \<Rightarrow> nat \<Rightarrow> bag \<Rightarrow> error + int" where
  "compute allowed np rounds ntasks x =
     (if list_ex (\<lambda>i. allowed < suspiciousness np rounds i) [0..<ntasks]
      then Inl KilledWorker
      else Inr (summed x))"




section \<open>The machine-learning overview notebook: the hyper-parameter grid\<close>

text \<open>
  \<^verbatim>\<open>
  param_grid = {"C": [0.001, 0.01, 0.1, 0.5, 1.0, 2.0, 5.0, 10.0],
                "kernel": ['rbf', 'poly', 'sigmoid'],
                "shrinking": [True, False]}
  \<close>
  The dictionary is kept as an association list in the order written. The decimal
  literals are the rationals they denote.
\<close>

datatype pyval = Float rat | Str string | Bool bool

definition param_grid :: "(string \<times> pyval list) list" where
  "param_grid =
     [(''C'', [Float (1/1000), Float (1/100), Float (1/10), Float (1/2),
               Float 1, Float 2, Float 5, Float 10]),
      (''kernel'', [Str ''rbf'', Str ''poly'', Str ''sigmoid'']),
      (''shrinking'', [Bool True, Bool False])]"

text \<open>
  A grid search fits one candidate per combination of the grid: every way of choosing
  one value for each key.
\<close>

definition combinations :: "(string \<times> pyval list) list \<Rightarrow> (string \<times> pyval) list list" where
  "combinations grid = map (zip (map fst grid)) (product_lists (map snd grid))"

section \<open>The CI workflows\<close>

text \<open>
  A workflow file has a name and one job, a list of steps. A step either uses an action
  or runs shell commands; a command is kept as its list of words.
\<close>

record step =
  step_name :: string
  uses :: "string option"
  run :: "string list list"

record workflow =
  wf_file :: string
  wf_name :: string
  steps :: "step list"

text \<open>\<open>.github/workflows/ci-repo2docker.yaml\<close>\<close>

definition ci_repo2docker :: workflow where
  "ci_repo2docker = \<lparr>
     wf_file = ''.github/workflows/ci-repo2docker.yaml'',
     wf_name = ''repo2docker CI'',
     steps = [
       \<lparr>step_name = ''Checkout'', uses = Some ''actions/checkout@v2'', run = []\<rparr>,
       \<lparr>step_name = ''Set up Python 3.9'', uses = Some ''actions/setup-python@v2'', run = []\<rparr>,
       \<lparr>step_name = ''Install repo2docker'', uses = None,
        run = [[''python'', ''-m'', ''pip'', ''install'', ''--upgrade'', ''pip''],
               [''python'', ''-m'', ''pip'', ''install'', ''jupyter-repo2docker'']]\<rparr>,
       \<lparr>step_name = ''Build dask-examples Docker image'', uses = None,
        run = [[''jupyter-repo2docker'', ''--no-run'', ''--debug'', ''.'']]\<rparr>]\<rparr>"

text \<open>\<open>.github/workflows/ci-update-dependencies.yaml\<close>\<close>

definition ci_update_dependencies :: workflow where
  "ci_update_dependencies = \<lparr>
     wf_file = ''.github/workflows/ci-update-dependencies.yaml'',
     wf_name = ''Update Dependencies'',
     steps = [
       \<lparr>step_name = ''Checkout source'', uses = Some ''actions/checkout@v2'', run = []\<rparr>,
       \<lparr>step_name = ''Cache conda'', uses = Some ''actions/cache@v2'', run = []\<rparr>,
       \<lparr>step_name = ''Setup Conda Environment'',
        uses = Some ''conda-incubator/setup-miniconda@v2'', run = []\<rparr>,
       \<lparr>step_name = ''Install dependencies'', uses = None,
        run = [[''mamba'', ''install'', ''nbconvert'', ''nbformat'', ''jupyter_client'',
                ''ipykernel'', ''nbmake'', ''pytest-xdist'']]\<rparr>,
       \<lparr>step_name = ''Execute Notebooks'', uses = None,
        run = [[''pytest'', ''-vv'', ''-n=auto'', ''--forked'', ''--nbmake'', ''--overwrite'',
                ''--ignore'', ''machine-learning/torch-prediction.ipynb'',
                ''--ignore'', ''applications/json-data-on-the-web.ipynb'']]\<rparr>]\<rparr>"

definition workflows :: "workflow list" where
  "workflows = [ci_repo2docker, ci_update_dependencies]"

definition commands :: "workflow \<Rightarrow> string list list" where
  "commands w = concat (map run (steps w))"

text \<open>A workflow builds a container image when one of its commands is \<open>jupyter-repo2docker\<close>.\<close>

definition is_image_build :: "string list \<Rightarrow> bool" where
  "is_image_build cmd = (cmd \<noteq> [] \<and> hd cmd = ''jupyter-repo2docker'')"

definition builds_image :: "workflow \<Rightarrow> bool" where
  "builds_image w = list_ex is_image_build (commands w)"

text \<open>
  A workflow executes notebooks when one of its commands is \<open>pytest\<close> with the option
  \<open>--nbmake\<close>, which makes pytest collect the notebook files below the directory it is
  started in (here the checkout, no path being given) and run each as a test that fails
  when a cell raises. Each \<open>--ignore path\<close> takes that path out of the collection.
\<close>

definition is_notebook_run :: "string list \<Rightarrow> bool" where
  "is_notebook_run cmd = (cmd \<noteq> [] \<and> hd cmd = ''pytest'' \<and> ''--nbmake'' \<in> set cmd)"

definition executes_notebooks :: "workflow \<Rightarrow> bool" where
  "executes_notebooks w = list_ex is_notebook_run (commands w)"

fun ignore_paths :: "string list \<Rightarrow> string list" where
  "ignore_paths (a # p # rest) =
     (if a = ''--ignore'' then p # ignore_paths rest else ignore_paths (p # rest))"
| "ignore_paths _ = []"

definition is_notebook :: "string \<Rightarrow> bool" where
  "is_notebook p = suffix ''.ipynb'' p"





fun components :: "string \<Rightarrow> string list" where
  "components [] = [[]]"
| "components (c # cs) =
     (if c = CHR ''/'' then [] # components cs
      else (case components cs of
              [] \<Rightarrow> [[c]]
            | d # ds \<Rightarrow> (c # d) # ds))"












definition excluded_notebooks :: "workflow \<Rightarrow> string list" where
  "excluded_notebooks w = concat (map ignore_paths (filter is_notebook_run (commands w)))"

definition builds_and_executes :: "workflow \<Rightarrow> bool" where
  "builds_and_executes w = (builds_image w \<and> executes_notebooks w)"


section \<open>The startup script \<open>binder/start\<close>\<close>

text \<open>
  \<^verbatim>\<open>
  sed -i -e "s|DASK_DASHBOARD_URL|${JUPYTERHUB_BASE_URL}user/${JUPYTERHUB_USER}/proxy/8787|g" binder/example.jupyterlab-workspace
  mkdir -p ~/.jupyter/lab/workspaces/
  mv binder/example.jupyterlab-workspace ~/.jupyter/lab/workspaces/default-37a8.jupyterlab-workspace
  exec "$@"
  \<close>
  The state the script works on is the environment (variable names to values) and the
  file system (paths to regular files with their content, or to directories). The script
  sets neither \<open>-u\<close> nor \<open>-e\<close>: an unset variable expands to the empty string, and a
  command that fails does not stop the script. A command can fail because of what the
  file system holds, and because the operating system refuses what it asks for
  (permissions, a read-only or a full file system); the latter is the parameter \<open>host\<close>,
  which says for an operation and a path whether it is refused. Paths are the names
  the script writes: the workspace file relative to the directory the script is started
  in, and \<open>~\<close> for the home directory the shell puts in its place.
\<close>

type_synonym env = "string \<rightharpoonup> string"

datatype node = File string | Dir

type_synonym files = "string \<rightharpoonup> node"

datatype operation = Edit | Make_dir | Rename

type_synonym host = "operation \<Rightarrow> string \<Rightarrow> bool"

definition expand :: "env \<Rightarrow> string \<Rightarrow> string" where
  "expand env name = (case env name of None \<Rightarrow> [] | Some v \<Rightarrow> v)"

text \<open>
  The shell expands the two variables inside the double quotes before \<open>sed\<close> sees the
  expression, so their values become part of the text that \<open>sed\<close> parses.
\<close>

definition sed_expression :: "env \<Rightarrow> string" where
  "sed_expression env =
     ''s|DASK_DASHBOARD_URL|'' @ expand env ''JUPYTERHUB_BASE_URL'' @ ''user/''
       @ expand env ''JUPYTERHUB_USER'' @ ''/proxy/8787|g''"

definition workspace :: string where
  "workspace = ''binder/example.jupyterlab-workspace''"

definition workspaces_dir :: string where
  "workspaces_dir = ''~/.jupyter/lab/workspaces/''"

definition default_workspace :: string where
  "default_workspace = ''~/.jupyter/lab/workspaces/default-37a8.jupyterlab-workspace''"

subsection \<open>The substitute command of \<open>sed\<close>\<close>

text \<open>
  \<open>sed\<close> is not the repository's code; what the script relies on is modelled, as GNU
  \<open>sed\<close> does it. An
  expression \<open>s\<close>, a delimiter, a regular expression, the delimiter, a replacement, the
  delimiter, flags: the regular expression and the replacement each end at the next
  delimiter. In the replacement \<open>&\<close> stands for the text that was matched, a newline
  ends the expression too early (\<open>sed\<close> rejects it as unterminated), and a backslash
  starts an escape sequence. Three outcomes of parsing: a global substitution of a
  literal pattern; an expression \<open>sed\<close> rejects, so that it exits without touching the
  file; and \<open>Beyond\<close>, for the expressions this model does not follow (regular
  expressions with special characters, escape sequences, flags other than the single
  \<open>g\<close>, other commands).
\<close>

datatype repl_item = Lit char | Matched

datatype replacement = Replacement "repl_item list" string | No_delimiter | Has_escape

datatype sed_script = Global_subst string "repl_item list" | Rejected | Beyond

fun read_regex :: "char \<Rightarrow> string \<Rightarrow> (string \<times> string) option" where
  "read_regex d [] = None"
| "read_regex d (c # cs) =
     (if c = d then Some ([], cs)
      else (case read_regex d cs of
              None \<Rightarrow> None
            | Some (re, rest) \<Rightarrow> Some (c # re, rest)))"

definition regex_special :: "char list" where
  "regex_special =
     [CHR 0x5C, CHR ''.'', CHR ''['', CHR '']'', CHR ''*'', CHR ''^'', CHR ''$'', CHR 0x0A]"

definition literal_regex :: "string \<Rightarrow> bool" where
  "literal_regex re = (re \<noteq> [] \<and> list_all (\<lambda>c. c \<notin> set regex_special) re)"

fun read_replacement :: "char \<Rightarrow> string \<Rightarrow> replacement" where
  "read_replacement d [] = No_delimiter"
| "read_replacement d (c # cs) =
     (if c = d then Replacement [] cs
      else if c = CHR 0x5C then Has_escape
      else if c = CHR 0x0A then No_delimiter
      else (case read_replacement d cs of
              Replacement items flags \<Rightarrow>
                Replacement ((if c = CHR ''&'' then Matched else Lit c) # items) flags
            | r \<Rightarrow> r))"

definition parse_s :: "string \<Rightarrow> sed_script" where
  "parse_s script =
     (case script of
        c # d # rest \<Rightarrow>
          if c \<noteq> CHR ''s'' \<or> d = CHR 0x5C \<or> d = CHR 0x0A then Beyond
          else (case read_regex d rest of
                  None \<Rightarrow> Rejected
                | Some (re, rest') \<Rightarrow>
                    if \<not> literal_regex re then Beyond
                    else (case read_replacement d rest' of
                            No_delimiter \<Rightarrow> Rejected
                          | Has_escape \<Rightarrow> Beyond
                          | Replacement items flags \<Rightarrow>
                              if flags = ''g'' then Global_subst re items else Beyond))
      | _ \<Rightarrow> Beyond)"

text \<open>The replacement text for a match \<open>m\<close>.\<close>

fun render :: "repl_item list \<Rightarrow> string \<Rightarrow> string" where
  "render [] m = []"
| "render (Lit c # items) m = c # render items m"
| "render (Matched # items) m = m @ render items m"

text \<open>
  With the flag \<open>g\<close>, a line is scanned from the left; where the (literal, non-empty)
  pattern starts, the replacement is put out and the scan goes on behind the match.
\<close>

fun substitute :: "string \<Rightarrow> string \<Rightarrow> string \<Rightarrow> string" where
  "substitute p r [] = []"
| "substitute p r (c # cs) =
     (if p \<noteq> [] \<and> prefix p (c # cs) then r @ substitute p r (drop (length p - 1) cs)
      else c # substitute p r cs)"

text \<open>
  \<open>sed\<close> edits line by line: the text is cut at its newlines, every line is edited, and
  the lines are put together again with the newlines they had.
\<close>

fun split_lines :: "string \<Rightarrow> string list" where
  "split_lines [] = [[]]"
| "split_lines (c # cs) =
     (if c = CHR 0x0A then [] # split_lines cs
      else (case split_lines cs of
              [] \<Rightarrow> [[c]]
            | line # lines \<Rightarrow> (c # line) # lines))"

fun join :: "'a list \<Rightarrow> 'a list list \<Rightarrow> 'a list" where
  "join sep [] = []"
| "join sep [x] = x"
| "join sep (x # y # ys) = x @ sep @ join sep (y # ys)"

definition sed_lines :: "string \<Rightarrow> string \<Rightarrow> string \<Rightarrow> string" where
  "sed_lines p r text = join [CHR 0x0A] (map (substitute p r) (split_lines text))"

text \<open>
  \<open>sed -i\<close> on a path: when there is no regular file at the path, or the host refuses
  the edit, \<open>sed\<close> fails and changes nothing.
\<close>

definition sed_in_place ::
    "host \<Rightarrow> string \<Rightarrow> repl_item list \<Rightarrow> string \<Rightarrow> files \<Rightarrow> files" where
  "sed_in_place h re items path fs =
     (case fs path of
        Some (File text) \<Rightarrow>
          if h Edit path then fs else fs(path \<mapsto> File (sed_lines re (render items re) text))
      | _ \<Rightarrow> fs)"

subsection \<open>The script\<close>

text \<open>
  \<open>mkdir -p\<close> goes through the directories on the way to its argument, from the
  outermost on: one that is there is left alone, one that is missing is made, and the
  command fails (leaving what it has made) where a regular file is in the way or the
  host refuses. The result is the file system and whether the command succeeded.
\<close>

fun paths_from :: "string \<Rightarrow> string list \<Rightarrow> string list" where
  "paths_from base [] = []"
| "paths_from base (d # ds) =
     (if base = [] then d # paths_from d ds
      else (base @ ''/'' @ d) # paths_from (base @ ''/'' @ d) ds)"

definition ancestors :: "string \<Rightarrow> string list" where
  "ancestors p =
     (if prefix ''/'' p
      then map ((#) CHR ''/'') (paths_from [] (filter (\<lambda>d. d \<noteq> []) (components p)))
      else paths_from [] (filter (\<lambda>d. d \<noteq> []) (components p)))"

fun mkdir_chain :: "host \<Rightarrow> string list \<Rightarrow> files \<Rightarrow> files \<times> bool" where
  "mkdir_chain h [] fs = (fs, True)"
| "mkdir_chain h (d # ds) fs =
     (case fs d of
        Some (File text) \<Rightarrow> (fs, False)
      | Some Dir \<Rightarrow> mkdir_chain h ds fs
      | None \<Rightarrow> if h Make_dir d then (fs, False) else mkdir_chain h ds (fs(d \<mapsto> Dir)))"

definition mkdir_p :: "host \<Rightarrow> string \<Rightarrow> files \<Rightarrow> files \<times> bool" where
  "mkdir_p h path fs = mkdir_chain h (ancestors path) fs"

text \<open>
  \<open>mv\<close> of a regular file. It fails, changing nothing, when the source is missing,
  when the directory the target lies in is not there, or when the host refuses. A
  target that is a directory takes the file under the source's own name, unless a
  directory of that name is in it already. A source that is a directory is not
  followed (\<open>None\<close>).
\<close>

definition parent :: "string \<Rightarrow> string" where
  "parent p =
     (if CHR ''/'' \<notin> set p then ''.''
      else if join ''/'' (butlast (components p)) = [] then ''/''
      else join ''/'' (butlast (components p)))"

definition basename :: "string \<Rightarrow> string" where
  "basename p = last (components p)"

definition rename_file :: "host \<Rightarrow> string \<Rightarrow> string \<Rightarrow> string \<Rightarrow> files \<Rightarrow> files \<times> bool" where
  "rename_file h src text dst fs =
     (if h Rename dst then (fs, False) else ((fs(src := None))(dst \<mapsto> File text), True))"

definition mv :: "host \<Rightarrow> string \<Rightarrow> string \<Rightarrow> files \<Rightarrow> (files \<times> bool) option" where
  "mv h src dst fs =
     (case fs src of
        None \<Rightarrow> Some (fs, False)
      | Some Dir \<Rightarrow> None
      | Some (File text) \<Rightarrow>
          if fs (parent dst) \<noteq> Some Dir then Some (fs, False)
          else (case fs dst of
                  Some Dir \<Rightarrow>
                    if fs (dst @ ''/'' @ basename src) = Some Dir then Some (fs, False)
                    else Some (rename_file h src text (dst @ ''/'' @ basename src) fs)
                | _ \<Rightarrow> Some (rename_file h src text dst fs)))"

text \<open>
  The last command replaces the shell by the command given as the script's arguments:
  \<open>Exec fs args\<close> says that the script has come to \<open>exec\<close> with \<open>args\<close>, and that the
  file system is \<open>fs\<close> at that moment (with no argument nothing is launched and the
  script ends). The script looks at the status of none of its commands.
\<close>

datatype outcome = Exec files "string list" | Beyond_model

definition move_and_exec :: "host \<Rightarrow> string list \<Rightarrow> files \<Rightarrow> outcome" where
  "move_and_exec h args fs =
     (case mv h workspace default_workspace (fst (mkdir_p h workspaces_dir fs)) of
        None \<Rightarrow> Beyond_model
      | Some (fs', moved) \<Rightarrow> Exec fs' args)"

definition start :: "host \<Rightarrow> env \<Rightarrow> string list \<Rightarrow> files \<Rightarrow> outcome" where
  "start h env args fs =
     (case parse_s (sed_expression env) of
        Beyond \<Rightarrow> Beyond_model
      | Rejected \<Rightarrow> move_and_exec h args fs
      | Global_subst re items \<Rightarrow>
          move_and_exec h args (sed_in_place h re items workspace fs))"

fun file_at_exec :: "outcome \<Rightarrow> string \<Rightarrow> node option" where
  "file_at_exec (Exec fs args) path = fs path"
| "file_at_exec Beyond_model path = None"

text \<open>A host that refuses nothing, and the file system after a successful \<open>mkdir -p\<close>.\<close>

definition permissive :: host where
  "permissive op p = False"

fun with_dirs :: "string list \<Rightarrow> files \<Rightarrow> files" where
  "with_dirs [] fs = fs"
| "with_dirs (d # ds) fs = with_dirs ds (fs(d \<mapsto> Dir))"

subsection \<open>What the script is said to do\<close>

text \<open>
  The placeholder, the URL derived from the environment, and the way a text falls
  apart at the occurrences of a pattern: \<open>segments p text\<close> are the pieces between the
  occurrences found from the left, so that the text is the pieces joined by \<open>p\<close>.
  Replacing every occurrence by \<open>u\<close> and leaving the rest alone is joining the same
  pieces by \<open>u\<close>.
\<close>

definition placeholder :: string where
  "placeholder = ''DASK_DASHBOARD_URL''"

definition dashboard_url :: "env \<Rightarrow> string" where
  "dashboard_url env =
     expand env ''JUPYTERHUB_BASE_URL'' @ ''user/'' @ expand env ''JUPYTERHUB_USER''
       @ ''/proxy/8787''"

fun segments :: "string \<Rightarrow> string \<Rightarrow> string list" where
  "segments p [] = [[]]"
| "segments p (c # cs) =
     (if p \<noteq> [] \<and> prefix p (c # cs) then [] # segments p (drop (length p - 1) cs)
      else (case segments p cs of
              [] \<Rightarrow> [[c]]
            | seg # segs \<Rightarrow> (c # seg) # segs))"

text \<open>
  A value is plain when it holds none of the characters that \<open>sed\<close> reads as syntax in
  the replacement: the delimiter \<open>|\<close>, \<open>&\<close>, the backslash and the newline.
\<close>

definition plain :: "string \<Rightarrow> bool" where
  "plain v = list_all (\<lambda>c. c \<notin> set [CHR ''|'', CHR ''&'', CHR 0x5C, CHR 0x0A]) v"

text \<open>
  Three environments: a user name of letters, one with an \<open>&\<close> in it and one with a
  newline in it. Two file systems: one with the workspace file and nothing in the home
  directory, and one in which \<open>~/.jupyter\<close> is a regular file.
\<close>

definition env_sample :: env where
  "env_sample = [''JUPYTERHUB_BASE_URL'' \<mapsto> ''/'', ''JUPYTERHUB_USER'' \<mapsto> ''jovyan'']"

definition env_ampersand :: env where
  "env_ampersand = [''JUPYTERHUB_BASE_URL'' \<mapsto> ''/'', ''JUPYTERHUB_USER'' \<mapsto> ''a&b'']"

definition fs_sample :: files where
  "fs_sample = [workspace \<mapsto> File ''url: DASK_DASHBOARD_URL/status'']"

definition fs_blocked :: files where
  "fs_blocked =
     [workspace \<mapsto> File ''url: DASK_DASHBOARD_URL/status'', ''~'' \<mapsto> Dir,
      ''~/.jupyter'' \<mapsto> File ''x'']"

definition env_newline :: env where
  "env_newline =
     [''JUPYTERHUB_BASE_URL'' \<mapsto> ''/'', ''JUPYTERHUB_USER'' \<mapsto> [CHR ''a'', CHR 0x0A, CHR ''b'']]"

section \<open>The notebooks\<close>

text \<open>
  The claims about the notebooks are about the shape of their code, so the code cells
  are kept as syntax, statement by statement. A statement records what the claims look
  at: the module an import names and the names it binds; for a simple statement (an
  assignment, an expression or a return) the calls it makes, each by the dotted name of
  what is called (\<open>.name\<close> when the receiver is the result of an expression and not a name,
  \<open>(...)\<close> when what is called is), and
  the comprehensions, lambdas and awaits it holds, in the order they are written;
  function definitions, with a flag for \<open>async def\<close>; and the compound statements
  \<open>for\<close>, \<open>while\<close>, \<open>if\<close> (with its else branch) and \<open>with\<close>, each with what
  its header holds and its body. A docstring is an expression statement that holds
  nothing. Lines that are not Python (IPython magics, shell escapes, \<open>name?\<close>) are
  \<open>Magic\<close>; for a line \<open>%time s\<close> the statement \<open>s\<close> is recorded. Cells are counted
  from 0, text cells included; text cells are left out.
\<close>

datatype feat = Call string | Comprehension | Lambda | Await

datatype stmt =
    Import string "string list"
  | Simple "feat list"
  | Def bool string "stmt list"
  | For "feat list" "stmt list"
  | While "feat list" "stmt list"
  | If "feat list" "stmt list" "stmt list"
  | With "feat list" "stmt list"
  | Magic string

record notebook =
  nb_title :: string
  nb_file :: string
  cells :: "stmt list list"

text \<open>
  Ten notebooks are in the sources. Two files hold a second notebook after the first
  (the survey results in \<open>resilience.ipynb\<close> from line 205, the embarrassingly parallel
  workloads in \<open>applications/evolving-workflows.ipynb\<close> from line 263).
\<close>

definition resilience :: notebook where
  "resilience = \<lparr>
     nb_title = ''Resilience against hardware failures'',
     nb_file = ''resilience.ipynb'',
     cells = [
       \<comment> \<open>cell 2\<close>
       [Import ''dask'' [''dask''],
        Simple [Call ''dask.config.set'']],
       \<comment> \<open>cell 4\<close>
       [Import ''dask.distributed'' [''Client'', ''LocalCluster''],
        Import ''dask'' [''db''],
        Import ''os'' [''os''],
        Import ''random'' [''random''],
        Import ''time'' [''sleep'']],
       \<comment> \<open>cell 6\<close>
       [Simple [Call ''LocalCluster''],
        Simple [Call ''Client''],
        Simple []],
       \<comment> \<open>cell 8\<close>
       [Def False ''multiply_by_two''
           [Simple [Call ''sleep''],
            Simple []]],
       \<comment> \<open>cell 9\<close>
       [Simple [],
        Simple [Call ''db.from_sequence'', Call ''range''],
        Simple [Call ''x.map''],
        Simple [Call ''mults.sum'']],
       \<comment> \<open>cell 12\<close>
       [Simple [Comprehension, Call ''cluster.scheduler.workers.values''],
        Simple []],
       \<comment> \<open>cell 13\<close>
       [Def False ''kill_a_worker''
           [Simple [Comprehension, Call ''cluster.scheduler.workers.values''],
            If []
               [Simple [Call ''os.kill'', Call ''random.choice'']]
               []]],
       \<comment> \<open>cell 15\<close>
       [Simple [Call ''client.compute''],
        While [Call ''summed.done'']
           [Simple [Call ''kill_a_worker''],
            Simple [Call ''sleep'']]],
       \<comment> \<open>cell 17\<close>
       [Simple [Call ''print'', Call ''summed.result'']]]\<rparr>"

definition survey_2020 :: notebook where
  "survey_2020 = \<lparr>
     nb_title = ''2020 Dask User Survey Results'',
     nb_file = ''resilience.ipynb'',
     cells = [
       \<comment> \<open>cell 1\<close>
       [Magic ''%matplotlib inline'',
        Import ''pandas'' [''pd''],
        Import ''seaborn'' [''sns''],
        Import ''matplotlib.pyplot'' [''plt''],
        Import ''textwrap'' [''textwrap''],
        Import ''re'' [''re''],
        Simple [Call ''pd.read_csv'', Call ''.replace''],
        Simple [Call ''pd.read_csv'', Call ''.assign'', Lambda, Call ''pd.to_datetime'', Call ''.astype'', Call ''.replace''],
        Simple [Call ''df2020.head''],
        Simple [],
        Simple [Call ''df2020.columns.difference''],
        Simple [Call ''df2019.columns.difference''],
        Simple [Call ''pd.concat''],
        Simple [],
        Simple [Call ''df.set_index'', Call ''.sort_index'']],
       \<comment> \<open>cell 3\<close>
       [Simple [],
        Simple [Call ''.dropna'', Call ''.str.split'', Call ''.explode''],
        Simple [Call ''d.value_counts''],
        Simple [],
        Simple [Call ''sns.countplot'', Call ''d.isin'', Call ''.to_frame'']],
       \<comment> \<open>cell 5\<close>
       [Simple [],
        Simple [Call ''sns.countplot'', Call ''.dropna'', Call ''.str.split'', Call ''.explode'', Call ''.to_frame'']],
       \<comment> \<open>cell 7\<close>
       [Simple [],
        Simple [],
        Simple [Call ''.str.split'', Call ''.explode'', Call ''.replace''],
        Simple [Call ''d.value_counts''],
        Simple [Call ''d.isin''],
        Simple [Call ''plt.subplots''],
        Simple [Call ''sns.countplot'', Call ''d.reset_index''],
        Simple [Call ''ax.set'']],
       \<comment> \<open>cell 10\<close>
       [Simple [Call ''.str.split'', Call ''.explode'', Call ''.replace'', Call ''.replace'', Call ''re.compile'', Call ''.value_counts''],
        Simple [Call ''dict'', Call ''zip'', Call ''sns.color_palette''],
        Simple [],
        Def False ''resource_plot''
           [Simple [Call ''.str.split'', Call ''.explode'', Call ''.replace''],
            Simple [Call ''resources.value_counts'', Call ''.head''],
            Simple [Call ''resources.isin''],
            Simple [Call ''pd.merge'', Call ''.replace'', Call ''re.compile''],
            Simple [Call ''sns.countplot'', Call ''list''],
            Simple [Call ''sns.despine''],
            Simple []],
        Simple [Call ''plt.subplots''],
        Simple [Call ''resource_plot''],
        Simple [Call ''resource_plot''],
        Simple [Call ''ax1.set_title''],
        Simple [Call ''ax2.set_title'']],
       \<comment> \<open>cell 12\<close>
       [Simple [Call ''.str.split'', Call ''.explode''],
        Simple [Call ''apis.value_counts'', Lambda],
        Simple [Call ''apis.isin'', Call ''.reset_index''],
        Simple [Call ''sns.countplot'']],
       \<comment> \<open>cell 14\<close>
       [Simple [Call ''.dropna'', Call ''.str.contains'', Call ''.astype'', Call ''.groupby'', Call ''.mean'']],
       \<comment> \<open>cell 16\<close>
       [Simple [],
        Simple [Call ''.str.split'', Call ''.explode'', Call ''.reset_index''],
        Simple [Call ''sns.countplot'']],
       \<comment> \<open>cell 18\<close>
       [Simple [Call ''pd.merge'', Call ''.str.split'', Call ''.explode'', Call ''.groupby'', Call ''.value_counts'', Call ''.unstack''],
        Simple [Call ''help_by_api.style.background_gradient'', Call ''.set_caption'']],
       \<comment> \<open>cell 19\<close>
       [Simple [Call ''pd.merge'', Call ''.str.split'', Call ''.explode'', Call ''.groupby'', Call ''.value_counts'', Call ''.unstack''],
        Simple [Call ''help_by_api.style.background_gradient'', Call ''.set_caption'']],
       \<comment> \<open>cell 22\<close>
       [Simple [Call ''df.columns.str.startswith'', Call ''.rename'', Lambda, Call ''x.lstrip'', Call ''.rstrip''],
        Simple [Call ''.apply'', Call ''.T.stack'', Call ''.reset_index'', Call ''.rename'', Call ''.assign''],
        Simple [Call ''.apply'', Call ''.T.stack'', Call ''.reset_index'', Call ''.rename'', Call ''.assign''],
        Simple [Call ''pd.concat''],
        Simple [Call ''common.stack'', Call ''.reset_index'', Call ''.rename''],
        Simple [],
        Simple [Call ''sns.catplot'']],
       \<comment> \<open>cell 25\<close>
       [Simple [Call ''.dropna'', Call ''.str.split'', Call ''.explode''],
        Simple [Call ''c.value_counts''],
        Simple [Call ''sns.countplot'', Call ''c.isin'', Call ''.reset_index'']],
       \<comment> \<open>cell 27\<close>
       [Simple [Call ''sns.countplot'', Call ''df.reset_index''],
        Simple [Call ''sns.despine'']]]\<rparr>"

definition data_access :: notebook where
  "data_access = \<lparr>
     nb_title = ''DataFrames: Read and Write Data'',
     nb_file = ''dataframes/01-data-access.ipynb'',
     cells = [
       \<comment> \<open>cell 1\<close>
       [Import ''IPython.display'' [''YouTubeVideo''],
        Simple [Call ''YouTubeVideo'']],
       \<comment> \<open>cell 3\<close>
       [Import ''dask.distributed'' [''Client''],
        Simple [Call ''Client''],
        Simple []],
       \<comment> \<open>cell 5\<close>
       [Import ''dask'' [''dask''],
        Simple [Call ''dask.datasets.timeseries''],
        Simple []],
       \<comment> \<open>cell 6\<close>
       [Import ''os'' [''os''],
        Import ''datetime'' [''datetime''],
        If [Call ''os.path.exists'']
           [Simple [Call ''os.mkdir'']]
           [],
        Def False ''name''
           [Simple [],
            Simple [Call ''str'', Call ''datetime.date'', Call ''datetime.timedelta'']],
        Simple [Call ''df.to_csv'']],
       \<comment> \<open>cell 8\<close>
       [Magic ''!ls data/*.csv | head''],
       \<comment> \<open>cell 9\<close>
       [Magic ''!head data/2000-01-01.csv''],
       \<comment> \<open>cell 10\<close>
       [Magic ''!head data/2000-01-30.csv''],
       \<comment> \<open>cell 12\<close>
       [Import ''pandas'' [''pd''],
        Simple [Call ''pd.read_csv''],
        Simple [Call ''df.head'']],
       \<comment> \<open>cell 13\<close>
       [Import ''dask.dataframe'' [''dd''],
        Simple [Call ''dd.read_csv''],
        Simple []],
       \<comment> \<open>cell 14\<close>
       [Simple [Call ''df.head'']],
       \<comment> \<open>cell 16\<close>
       [Magic ''pd.read_csv?''],
       \<comment> \<open>cell 17\<close>
       [Magic ''dd.read_csv?''],
       \<comment> \<open>cell 19\<close>
       [Simple [Call ''dd.read_csv''],
        Simple []],
       \<comment> \<open>cell 21\<close>
       [Simple [Call ''df.groupby'', Call ''.x.mean'', Call ''.compute'']],
       \<comment> \<open>cell 22\<close>
       [],
       \<comment> \<open>cell 24\<close>
       [Simple [Call ''df.to_parquet'']],
       \<comment> \<open>cell 25\<close>
       [Magic ''!ls data/2000-01.parquet/''],
       \<comment> \<open>cell 27\<close>
       [Simple [Call ''dd.read_parquet''],
        Simple []],
       \<comment> \<open>cell 28\<close>
       [Simple [Call ''df.groupby'', Call ''.x.mean'', Call ''.compute'']],
       \<comment> \<open>cell 30\<close>
       [Magic ''%%time'',
        Simple [Call ''dd.read_parquet''],
        Simple [Call ''df.groupby'', Call ''.x.mean'', Call ''.compute'']]]\<rparr>"

definition scale_scikit_learn :: notebook where
  "scale_scikit_learn = \<lparr>
     nb_title = ''Scale Scikit-Learn for Small Data Problems'',
     nb_file = ''machine-learning/scale-scikit-learn.ipynb'',
     cells = [
       \<comment> \<open>cell 1\<close>
       [Import ''IPython.display'' [''YouTubeVideo''],
        Simple [Call ''YouTubeVideo'']],
       \<comment> \<open>cell 2\<close>
       [Import ''dask.distributed'' [''Client'', ''progress''],
        Simple [Call ''Client''],
        Simple []],
       \<comment> \<open>cell 5\<close>
       [Import ''pprint'' [''pprint''],
        Import ''time'' [''time''],
        Import ''logging'' [''logging''],
        Import ''sklearn.datasets'' [''fetch_20newsgroups''],
        Import ''sklearn.feature_extraction.text'' [''HashingVectorizer''],
        Import ''sklearn.feature_extraction.text'' [''TfidfTransformer''],
        Import ''sklearn.linear_model'' [''SGDClassifier''],
        Import ''sklearn.model_selection'' [''GridSearchCV''],
        Import ''sklearn.pipeline'' [''Pipeline'']],
       \<comment> \<open>cell 6\<close>
       [Simple [],
        Simple [Call ''print''],
        Simple [Call ''print''],
        Simple [Call ''fetch_20newsgroups''],
        Simple [Call ''print'', Call ''len''],
        Simple [Call ''print'', Call ''len''],
        Simple [Call ''print'']],
       \<comment> \<open>cell 8\<close>
       [Simple [Call ''Pipeline'', Call ''HashingVectorizer'', Call ''TfidfTransformer'', Call ''SGDClassifier'']],
       \<comment> \<open>cell 11\<close>
       [Simple []],
       \<comment> \<open>cell 12\<close>
       [Simple [Call ''GridSearchCV'']],
       \<comment> \<open>cell 14\<close>
       [Import ''joblib'' [''joblib''],
        With [Call ''joblib.parallel_backend'']
           [Simple [Call ''grid_search.fit'']]],
       \<comment> \<open>cell 17\<close>
       [Import ''sklearn.datasets'' [''load_digits''],
        Import ''sklearn.svm'' [''SVC''],
        Import ''dask_ml.wrappers'' [''ParallelPostFit'']],
       \<comment> \<open>cell 19\<close>
       [Simple [Call ''load_digits''],
        Simple []],
       \<comment> \<open>cell 20\<close>
       [Simple [Call ''ParallelPostFit'', Call ''SVC''],
        Simple [],
        Simple [Call ''GridSearchCV'']],
       \<comment> \<open>cell 22\<close>
       [Simple [Call ''grid_search.fit'']],
       \<comment> \<open>cell 24\<close>
       [Import ''dask.array'' [''da'']],
       \<comment> \<open>cell 25\<close>
       [Simple [Call ''da.concatenate'', Comprehension, Call ''da.from_array'', Call ''range''],
        Simple []],
       \<comment> \<open>cell 27\<close>
       [Simple [Call ''grid_search.predict''],
        Simple []]]\<rparr>"

definition glm :: notebook where
  "glm = \<lparr>
     nb_title = ''Generalized Linear Models'',
     nb_file = ''machine-learning/glm.ipynb'',
     cells = [
       \<comment> \<open>cell 2\<close>
       [Import ''dask.distributed'' [''Client'', ''progress''],
        Simple [Call ''Client''],
        Simple []],
       \<comment> \<open>cell 4\<close>
       [Import ''dask_glm.datasets'' [''make_regression''],
        Simple [Call ''make_regression''],
        Simple []],
       \<comment> \<open>cell 5\<close>
       [Import ''dask'' [''dask''],
        Simple [Call ''dask.persist'']],
       \<comment> \<open>cell 7\<close>
       [Import ''dask_glm.algorithms'' [''dask_glm''],
        Simple [Call ''dask_glm.algorithms.admm'']],
       \<comment> \<open>cell 9\<close>
       [Simple [Call ''dask_glm.algorithms.proximal_grad'']],
       \<comment> \<open>cell 11\<close>
       [Import ''dask_glm.families'' [''dask_glm''],
        Import ''dask_glm.regularizers'' [''dask_glm''],
        Simple [Call ''dask_glm.families.Poisson''],
        Simple [Call ''dask_glm.regularizers.ElasticNet''],
        Simple [Call ''dask_glm.algorithms.proximal_grad'']],
       \<comment> \<open>cell 12\<close>
       [Magic ''dask_glm.families.Poisson??''],
       \<comment> \<open>cell 13\<close>
       [Magic ''dask_glm.regularizers.ElasticNet??'']]\<rparr>"

definition voting_classifier :: notebook where
  "voting_classifier = \<lparr>
     nb_title = ''Use Voting Classifiers'',
     nb_file = ''machine-learning/voting-classifier.ipynb'',
     cells = [
       \<comment> \<open>cell 1\<close>
       [Import ''sklearn.ensemble'' [''VotingClassifier''],
        Import ''sklearn.linear_model'' [''SGDClassifier''],
        Import ''sklearn.linear_model'' [''LogisticRegression''],
        Import ''sklearn.svm'' [''SVC''],
        Import ''sklearn.datasets'' [''sklearn'']],
       \<comment> \<open>cell 3\<close>
       [Simple [Call ''sklearn.datasets.make_classification'']],
       \<comment> \<open>cell 5\<close>
       [Simple [Call ''SGDClassifier'', Call ''LogisticRegression'', Call ''SVC''],
        Simple [Call ''VotingClassifier'']],
       \<comment> \<open>cell 7\<close>
       [Simple [Call ''clf.fit'']],
       \<comment> \<open>cell 9\<close>
       [Import ''joblib'' [''joblib''],
        Import ''distributed'' [''Client''],
        Simple [Call ''Client''],
        Simple []],
       \<comment> \<open>cell 11\<close>
       [Magic ''%%time'',
        With [Call ''joblib.parallel_backend'']
           [Simple [Call ''clf.fit'']],
        Simple [Call ''print'']]]\<rparr>"

definition machine_learning :: notebook where
  "machine_learning = \<lparr>
     nb_title = ''Dask for Machine Learning'',
     nb_file = ''unnamed/part_000'',
     cells = [
       \<comment> \<open>cell 1\<close>
       [Import ''dask.distributed'' [''Client'', ''progress''],
        Simple [Call ''Client''],
        Simple []],
       \<comment> \<open>cell 4\<close>
       [Import ''sklearn.datasets'' [''make_classification''],
        Import ''sklearn.svm'' [''SVC''],
        Import ''sklearn.model_selection'' [''GridSearchCV''],
        Import ''pandas'' [''pd'']],
       \<comment> \<open>cell 6\<close>
       [Simple [Call ''make_classification''],
        Simple []],
       \<comment> \<open>cell 8\<close>
       [Simple [],
        Simple [Call ''GridSearchCV'', Call ''SVC'']],
       \<comment> \<open>cell 10\<close>
       [Import ''joblib'' [''joblib''],
        With [Call ''joblib.parallel_backend'']
           [Simple [Call ''grid_search.fit'']]],
       \<comment> \<open>cell 12\<close>
       [Simple [Call ''pd.DataFrame'', Call ''.head'']],
       \<comment> \<open>cell 13\<close>
       [Simple [Call ''grid_search.predict'']],
       \<comment> \<open>cell 14\<close>
       [Simple [Call ''grid_search.score'']],
       \<comment> \<open>cell 17\<close>
       [Magic ''%matplotlib inline''],
       \<comment> \<open>cell 18\<close>
       [Import ''dask_ml.datasets'' [''dask_ml''],
        Import ''dask_ml.cluster'' [''dask_ml''],
        Import ''matplotlib.pyplot'' [''plt'']],
       \<comment> \<open>cell 20\<close>
       [Simple [Call ''dask_ml.datasets.make_blobs''],
        Simple [Call ''X.persist''],
        Simple []],
       \<comment> \<open>cell 22\<close>
       [Simple [Call ''dask_ml.cluster.KMeans''],
        Simple [Call ''km.fit'']],
       \<comment> \<open>cell 24\<close>
       [Simple [Call ''plt.subplots''],
        Simple [Call ''ax.scatter'']]]\<rparr>"

definition evolving_workflows :: notebook where
  "evolving_workflows = \<lparr>
     nb_title = ''Handle Evolving Workflows'',
     nb_file = ''applications/evolving-workflows.ipynb'',
     cells = [
       \<comment> \<open>cell 2\<close>
       [Simple [Comprehension, Call ''.format'', Call ''range''],
        Simple []],
       \<comment> \<open>cell 3\<close>
       [Import ''random'' [''random''],
        Import ''time'' [''time''],
        Def False ''parse_file''
           [Simple [],
            Simple [Call ''time.sleep'', Call ''random.random''],
            Simple [Comprehension, Call ''random.random'', Call ''range'', Call ''random.randint'']],
        Def False ''process_item''
           [Simple [],
            Simple [Call ''time.sleep'', Call ''random.random''],
            Simple []]],
       \<comment> \<open>cell 4\<close>
       [Magic ''%%time'',
        Simple [],
        For []
           [Simple [Call ''parse_file''],
            For []
               [Simple [Call ''process_item''],
                Simple [Call ''results.append'']]]],
       \<comment> \<open>cell 6\<close>
       [Import ''dask.distributed'' [''Client''],
        Simple [Call ''Client''],
        Simple []],
       \<comment> \<open>cell 8\<close>
       [Magic ''%%time'',
        Import ''dask.distributed'' [''as_completed''],
        Import ''operator'' [''operator''],
        Simple [Call ''client.map''],
        Simple [Call ''client.map''],
        Simple [Call ''dict'', Call ''zip''],
        Simple [],
        For [Call ''as_completed'']
           [Simple [Call ''future.result''],
            Simple [],
            For [Call ''range'']
               [Simple [Call ''client.submit''],
                Simple [Call ''client.submit''],
                Simple [Call ''futures.append'']]],
        Simple [Call ''client.gather'']],
       \<comment> \<open>cell 10\<close>
       [Import ''asyncio'' [''asyncio''],
        Def True ''f''
           [Simple [],
            Simple [Call ''client.submit''],
            Simple [Call ''client.submit''],
            Simple [Await],
            Simple [Comprehension, Call ''client.submit'', Call ''range''],
            Simple [Call ''client.map''],
            Simple []],
        Def True ''run_all''
           [Simple [Await, Call ''asyncio.gather'', Comprehension, Call ''f''],
            Simple [Call ''sum''],
            Simple [Await, Call ''client.gather'']]],
       \<comment> \<open>cell 12\<close>
       [Simple [Call ''client.sync'']],
       \<comment> \<open>cell 14\<close>
       [Magic ''%%time'',
        Import ''dask.distributed'' [''get_client'', ''secede'', ''rejoin''],
        Def False ''f''
           [Simple [Call ''parse_file''],
            Simple [Call ''get_client''],
            Simple [Call ''client.map''],
            Simple [Call ''secede''],
            Simple [Call ''client.gather''],
            Simple [Call ''rejoin''],
            Simple []],
        Simple [Call ''client.map''],
        Simple [Call ''client.gather'']]]\<rparr>"

definition embarrassingly_parallel :: notebook where
  "embarrassingly_parallel = \<lparr>
     nb_title = ''Embarrassingly parallel Workloads'',
     nb_file = ''applications/evolving-workflows.ipynb'',
     cells = [
       \<comment> \<open>cell 2\<close>
       [Import ''dask.distributed'' [''Client'', ''progress''],
        Simple [Call ''Client''],
        Simple []],
       \<comment> \<open>cell 4\<close>
       [Import ''time'' [''time''],
        Import ''random'' [''random''],
        Def False ''costly_simulation''
           [Simple [Call ''time.sleep'', Call ''random.random''],
            Simple [Call ''sum'']]],
       \<comment> \<open>cell 6\<close>
       [Simple [Call ''costly_simulation'']],
       \<comment> \<open>cell 8\<close>
       [Import ''pandas'' [''pd''],
        Import ''numpy'' [''np''],
        Simple [Call ''pd.DataFrame'', Call ''np.random.random''],
        Simple [Call ''input_params.head'']],
       \<comment> \<open>cell 10\<close>
       [Simple []],
       \<comment> \<open>cell 11\<close>
       [Magic ''%%time'',
        For []
           [Simple [Call ''costly_simulation''],
            Simple [Call ''results.append'']]],
       \<comment> \<open>cell 12\<close>
       [Simple []],
       \<comment> \<open>cell 15\<close>
       [Import ''dask'' [''dask''],
        Simple []],
       \<comment> \<open>cell 16\<close>
       [Magic ''%%time'',
        For []
           [Simple [Call ''dask.delayed'', Call ''(...)''],
            Simple [Call ''lazy_results.append'']]],
       \<comment> \<open>cell 17\<close>
       [Simple []],
       \<comment> \<open>cell 19\<close>
       [Simple [Call ''dask.compute'']],
       \<comment> \<open>cell 22\<close>
       [Import ''dask'' [''dask''],
        Simple [],
        For []
           [Simple [Call ''dask.delayed'', Call ''(...)''],
            Simple [Call ''lazy_results.append'']],
        Simple [Call ''dask.persist'']],
       \<comment> \<open>cell 24\<close>
       [Simple [Call ''client.cluster.scale'']],
       \<comment> \<open>cell 26\<close>
       [Simple [Call ''dask.compute''],
        Simple []],
       \<comment> \<open>cell 28\<close>
       [Simple [],
        For []
           [Simple [Call ''client.submit''],
            Simple [Call ''futures.append'']]],
       \<comment> \<open>cell 30\<close>
       [Simple [Call ''client.gather''],
        Simple []],
       \<comment> \<open>cell 32\<close>
       [Simple [Call ''client.map'']],
       \<comment> \<open>cell 34\<close>
       [Simple [Call ''client.gather''],
        Simple [Call ''len'']],
       \<comment> \<open>cell 35\<close>
       [Simple [Call ''print'']],
       \<comment> \<open>cell 39\<close>
       [Simple [Call ''input_params.copy''],
        Simple [Call ''pd.Series''],
        Simple [Call ''output.sample'']],
       \<comment> \<open>cell 41\<close>
       [Magic ''%matplotlib inline'',
        Simple [Call ''.plot'']],
       \<comment> \<open>cell 42\<close>
       [Simple [Call ''.mean'']],
       \<comment> \<open>cell 43\<close>
       [Simple [],
        Simple [Call ''print'', Call ''len''],
        Simple [Call ''filtered_output.to_csv'']],
       \<comment> \<open>cell 45\<close>
       [Import ''dask.bag'' [''db''],
        Simple [Call ''db.from_sequence'', Call ''list''],
        Simple [Call ''b.map'']],
       \<comment> \<open>cell 46\<close>
       [Simple [Call ''b.compute'']],
       \<comment> \<open>cell 48\<close>
       [Simple [Call ''np.all'', Call ''np.all'']]]\<rparr>"

definition json_data_on_the_web :: notebook where
  "json_data_on_the_web = \<lparr>
     nb_title = ''Analyze web-hosted JSON data'',
     nb_file = ''applications/json-data-on-the-web.ipynb'',
     cells = [
       \<comment> \<open>cell 2\<close>
       [Import ''dask.bag'' [''db''],
        Simple [Call ''db.read_text'', Call ''.take'']],
       \<comment> \<open>cell 5\<close>
       [Import ''dask.distributed'' [''Client'', ''progress''],
        Simple [Call ''Client''],
        Simple []],
       \<comment> \<open>cell 7\<close>
       [Import ''dask.bag'' [''db''],
        Import ''json'' [''json'']],
       \<comment> \<open>cell 8\<close>
       [Simple [Call ''db.read_text'', Call ''.map'', Call ''.compute'']],
       \<comment> \<open>cell 9\<close>
       [Simple [Call ''db.read_text'', Call ''.map'', Call ''.pluck'', Call ''.compute''],
        Simple [Comprehension],
        Simple []],
       \<comment> \<open>cell 11\<close>
       [Simple [Call ''db.read_text'', Call ''.map''],
        Simple [Call ''events.take'']],
       \<comment> \<open>cell 13\<close>
       [Simple [Call ''events.pluck'', Call ''.frequencies'', Call ''.take'']],
       \<comment> \<open>cell 15\<close>
       [Simple [Call ''events.to_dataframe''],
        Simple [Call ''df.head'']],
       \<comment> \<open>cell 16\<close>
       [Simple [Call ''df.spec.value_counts'', Call ''.nlargest'', Call ''.to_frame'', Call ''.compute'']],
       \<comment> \<open>cell 18\<close>
       [Simple [Call ''df.persist'']],
       \<comment> \<open>cell 21\<close>
       [Import ''urllib'' [''urllib'']],
       \<comment> \<open>cell 22\<close>
       [Simple [Call ''df.provider.value_counts'', Call ''.compute'']],
       \<comment> \<open>cell 23\<close>
       [Simple [Call ''.spec.map'', Call ''.value_counts'', Call ''.to_frame'', Call ''.compute'']],
       \<comment> \<open>cell 24\<close>
       [Simple [Call ''.spec.apply'', Call ''.value_counts'', Call ''.to_frame'', Call ''.compute'']]]\<rparr>"

definition notebooks :: "notebook list" where
  "notebooks =
     [resilience, survey_2020, data_access, scale_scikit_learn, glm, voting_classifier,
      machine_learning, evolving_workflows, embarrassingly_parallel, json_data_on_the_web]"

definition statements :: "notebook \<Rightarrow> stmt list" where
  "statements nb = concat (cells nb)"

subsection \<open>Loops and branches\<close>

datatype control = Control_for | Control_while | Control_if

fun control_of :: "stmt \<Rightarrow> control list" where
  "control_of (Def a n body) = concat (map control_of body)"
| "control_of (For h body) = Control_for # concat (map control_of body)"
| "control_of (While h body) = Control_while # concat (map control_of body)"
| "control_of (If h body orelse) =
     Control_if # concat (map control_of body) @ concat (map control_of orelse)"
| "control_of (With h body) = concat (map control_of body)"
| "control_of (Import m ns) = []"
| "control_of (Simple fs) = []"
| "control_of (Magic l) = []"

definition control_flow :: "notebook \<Rightarrow> control list" where
  "control_flow nb = concat (map control_of (statements nb))"

definition straight_line :: "notebook \<Rightarrow> bool" where
  "straight_line nb = (control_flow nb = [])"

subsection \<open>Coroutines\<close>

fun coroutines_of :: "stmt \<Rightarrow> string list" where
  "coroutines_of (Def a n body) = (if a then [n] else []) @ concat (map coroutines_of body)"
| "coroutines_of (For h body) = concat (map coroutines_of body)"
| "coroutines_of (While h body) = concat (map coroutines_of body)"
| "coroutines_of (If h body orelse) =
     concat (map coroutines_of body) @ concat (map coroutines_of orelse)"
| "coroutines_of (With h body) = concat (map coroutines_of body)"
| "coroutines_of (Import m ns) = []"
| "coroutines_of (Simple fs) = []"
| "coroutines_of (Magic l) = []"

text \<open>Everything a statement holds, at any depth, function bodies included.\<close>

fun feats_of :: "stmt \<Rightarrow> feat list" where
  "feats_of (Def a n body) = concat (map feats_of body)"
| "feats_of (For h body) = h @ concat (map feats_of body)"
| "feats_of (While h body) = h @ concat (map feats_of body)"
| "feats_of (If h body orelse) = h @ concat (map feats_of body) @ concat (map feats_of orelse)"
| "feats_of (With h body) = h @ concat (map feats_of body)"
| "feats_of (Import m ns) = []"
| "feats_of (Simple fs) = fs"
| "feats_of (Magic l) = []"

definition coroutines :: "notebook \<Rightarrow> string list" where
  "coroutines nb = concat (map coroutines_of (statements nb))"

definition awaits :: "notebook \<Rightarrow> nat" where
  "awaits nb = length (filter (\<lambda>f. f = Await) (concat (map feats_of (statements nb))))"

definition no_coroutines :: "notebook \<Rightarrow> bool" where
  "no_coroutines nb = (coroutines nb = [] \<and> awaits nb = 0)"

subsection \<open>Imports of the framework and the client\<close>

text \<open>
  Running the cells from top to bottom binds names by imports and makes calls. A
  function definition makes no call when it is executed; the body of a compound
  statement is followed in the order written.
\<close>

datatype event = Bind string "string list" | Invoke string

fun invokes :: "feat list \<Rightarrow> event list" where
  "invokes [] = []"
| "invokes (Call n # fs) = Invoke n # invokes fs"
| "invokes (Comprehension # fs) = invokes fs"
| "invokes (Lambda # fs) = invokes fs"
| "invokes (Await # fs) = invokes fs"

fun events :: "stmt \<Rightarrow> event list" where
  "events (Import m ns) = [Bind m ns]"
| "events (Simple fs) = invokes fs"
| "events (Def a n body) = []"
| "events (For h body) = invokes h @ concat (map events body)"
| "events (While h body) = invokes h @ concat (map events body)"
| "events (If h body orelse) = invokes h @ concat (map events body) @ concat (map events orelse)"
| "events (With h body) = invokes h @ concat (map events body)"
| "events (Magic l) = []"

definition run_events :: "notebook \<Rightarrow> event list" where
  "run_events nb = concat (map events (statements nb))"

text \<open>
  The framework is the library and the packages built on it: the modules whose first
  component is \<open>dask\<close>, \<open>distributed\<close>, \<open>dask_ml\<close> or \<open>dask_glm\<close>. A call is a call into
  the framework when the first component of its name was bound by an import from one
  of them.
\<close>

definition root :: "string \<Rightarrow> string" where
  "root n = takeWhile (\<lambda>c. c \<noteq> CHR ''.'') n"

definition framework_module :: "string \<Rightarrow> bool" where
  "framework_module m = (root m \<in> set [''dask'', ''distributed'', ''dask_ml'', ''dask_glm''])"

fun is_framework_import :: "event \<Rightarrow> bool" where
  "is_framework_import (Bind m ns) = framework_module m"
| "is_framework_import (Invoke n) = False"

definition imports_framework :: "notebook \<Rightarrow> bool" where
  "imports_framework nb = list_ex is_framework_import (run_events nb)"

definition creates_client :: "notebook \<Rightarrow> bool" where
  "creates_client nb = (Invoke ''Client'' \<in> set (run_events nb))"

text \<open>
  The calls into the framework made before the first call of \<open>Client\<close> (all of them
  when there is none); \<open>bound\<close> are the names bound to the framework so far.
\<close>

fun before_client :: "string list \<Rightarrow> event list \<Rightarrow> string list" where
  "before_client bound [] = []"
| "before_client bound (Bind m ns # es) =
     before_client (if framework_module m then ns @ bound else bound) es"
| "before_client bound (Invoke n # es) =
     (if n = ''Client'' then []
      else (if root n \<in> set bound then [n] else []) @ before_client bound es)"

definition framework_calls_before_client :: "notebook \<Rightarrow> string list" where
  "framework_calls_before_client nb = before_client [] (run_events nb)"

definition framework_and_client :: "notebook \<Rightarrow> bool" where
  "framework_and_client nb = (imports_framework nb \<and> creates_client nb)"

definition client_first :: "notebook \<Rightarrow> bool" where
  "client_first nb = (framework_and_client nb \<and> framework_calls_before_client nb = [])"

subsection \<open>The resilience notebook in full\<close>

text \<open>
  What the resilience notebook configures is a matter of the arguments it passes, which
  the statements above do not keep. Here are all of its cells: the text cells with
  their text, the code cells with the full syntax of their statements and expressions
  (a number with a fraction or an exponent by its literal; an f-string by its parts).
\<close>

datatype expr =
    Name string
  | Attribute expr string
  | Int_lit int
  | Float_lit string
  | Str_lit string
  | Joined "expr list"
  | Call_expr expr "expr list" "(string \<times> expr) list"
  | Dict_lit "(expr \<times> expr) list"
  | List_comp expr expr expr "expr list"
  | Subscript expr expr
  | Slice "expr option" "expr option" "expr option"
  | Bin_op expr string expr
  | Not_expr expr
  | Compare expr string expr

datatype pstmt =
    Import_names "(string \<times> string option) list"
  | From_import string "(string \<times> string option) list"
  | Assign expr expr
  | Expr_stmt expr
  | Return expr
  | Function_def string "string list" "pstmt list"
  | If_stmt expr "pstmt list" "pstmt list"
  | While_stmt expr "pstmt list"

datatype cell = Markdown string | Code "pstmt list"

definition resilience_source :: "cell list" where
  "resilience_source = [
       \<comment> \<open>cell 0\<close>
       Markdown
         (''# Resilience against hardware failures'' @ [CHR 0x0A] @ [CHR 0x0A] @
          ''Scenario:  We have a cluster that partially consists of preemptible ressources. '' @
          '' That is, we'' @ [CHR 0x27] @
          ''ll have to deal with workers suddenly being shut down during computation. '' @
          '' While demonstrated here with a `LocalCluster`, Dask'' @ [CHR 0x27] @
          ''s resilience against preempted ressources is most useful with, e.g., [Dask '' @
          ''Kubernetes](https://kubernetes.dask.org/) or [Dask Jobqueue](https://jobqueue.dask.org).'' @
          [CHR 0x0A] @ [CHR 0x0A] @
          ''Relevant docs: <http://distributed.dask.org/en/latest/resilience.html#hardware-failures>''),
       \<comment> \<open>cell 1\<close>
       Markdown
         (''## Increase resilience'' @ [CHR 0x0A] @ [CHR 0x0A] @
          ''Whenever a worker shuts down, the scheduler will increment the suspiciousness '' @
          ''counter of _all_ tasks that were assigned (not necessarily computing) to '' @
          ''the worker in question.  Whenever the suspiciousness of a task exceeds a '' @
          ''certain threshold (3 by default), the task will be considered broken.  We '' @
          ''want to compute many tasks on only a few workers with workers shutting down '' @
          ''randomly.  So we expect the suspiciousness of all tasks to grow rapidly. '' @
          '' Let'' @ [CHR 0x27] @ ''s increase the threshold:''),
       \<comment> \<open>cell 2\<close>
       Code
         [Import_names [(''dask'', None)],
          Expr_stmt (Call_expr (Attribute (Attribute (Name ''dask'') ''config'') ''set'') [Dict_lit [(Str_lit ''distributed.scheduler.allowed-failures'', Int_lit 100)]] [])],
       \<comment> \<open>cell 3\<close>
       Markdown
         ''## All other imports'',
       \<comment> \<open>cell 4\<close>
       Code
         [From_import ''dask.distributed'' [(''Client'', None), (''LocalCluster'', None)],
          From_import ''dask'' [(''bag'', Some ''db'')],
          Import_names [(''os'', None)],
          Import_names [(''random'', None)],
          From_import ''time'' [(''sleep'', None)]],
       \<comment> \<open>cell 5\<close>
       Markdown
         ''## A cluster'',
       \<comment> \<open>cell 6\<close>
       Code
         [Assign (Name ''cluster'')
               (Call_expr (Name ''LocalCluster'') [] [(''threads_per_worker'', Int_lit 1), (''n_workers'', Int_lit 4), (''memory_limit'', Float_lit ''400e6'')]),
          Assign (Name ''client'')
               (Call_expr (Name ''Client'') [Name ''cluster''] []),
          Expr_stmt (Name ''client'')],
       \<comment> \<open>cell 7\<close>
       Markdown
         (''## A simple workload'' @ [CHR 0x0A] @ [CHR 0x0A] @ ''We'' @ [CHR 0x27] @
          ''ll multiply a range of numbers by two, add some sleep to simulate some real '' @
          ''work, and then reduce the whole sequence of doubled numbers by summing them.''),
       \<comment> \<open>cell 8\<close>
       Code
         [Function_def ''multiply_by_two'' [''x'']
            [Expr_stmt (Call_expr (Name ''sleep'') [Float_lit ''0.02''] []),
             Return (Bin_op (Int_lit 2) ''*'' (Name ''x''))]],
       \<comment> \<open>cell 9\<close>
       Code
         [Assign (Name ''N'')
               (Int_lit 400),
          Assign (Name ''x'')
               (Call_expr (Attribute (Name ''db'') ''from_sequence'') [Call_expr (Name ''range'') [Name ''N''] []] [(''npartitions'', Bin_op (Name ''N'') ''//'' (Int_lit 2))]),
          Assign (Name ''mults'')
               (Call_expr (Attribute (Name ''x'') ''map'') [Name ''multiply_by_two''] []),
          Assign (Name ''summed'')
               (Call_expr (Attribute (Name ''mults'') ''sum'') [] [])],
       \<comment> \<open>cell 10\<close>
       Markdown
         ''## Suddenly shutting down workers'',
       \<comment> \<open>cell 11\<close>
       Markdown
         (''Let'' @ [CHR 0x27] @ ''s mark two worker process id'' @ [CHR 0x27] @
          ''s as non-preemptible.''),
       \<comment> \<open>cell 12\<close>
       Code
         [Assign (Name ''all_current_workers'')
               (List_comp (Attribute (Name ''w'') ''pid'') (Name ''w'') (Call_expr (Attribute (Attribute (Attribute (Name ''cluster'') ''scheduler'') ''workers'') ''values'') [] []) []),
          Assign (Name ''non_preemptible_workers'')
               (Subscript (Name ''all_current_workers'') (Slice (None) (Some (Int_lit 2)) (None)))],
       \<comment> \<open>cell 13\<close>
       Code
         [Function_def ''kill_a_worker'' []
            [Assign (Name ''preemptible_workers'')
                   (List_comp (Attribute (Name ''w'') ''pid'') (Name ''w'') (Call_expr (Attribute (Attribute (Attribute (Name ''cluster'') ''scheduler'') ''workers'') ''values'') [] []) [Compare (Attribute (Name ''w'') ''pid'') ''not in'' (Name ''non_preemptible_workers'')]),
             If_stmt (Name ''preemptible_workers'')
                [Expr_stmt (Call_expr (Attribute (Name ''os'') ''kill'') [Call_expr (Attribute (Name ''random'') ''choice'') [Name ''preemptible_workers''] [], Int_lit 15] [])]
                []]],
       \<comment> \<open>cell 14\<close>
       Markdown
         (''## Start the computation and keep shutting down workers while it'' @ [CHR 0x27] @
          ''s running''),
       \<comment> \<open>cell 15\<close>
       Code
         [Assign (Name ''summed'')
               (Call_expr (Attribute (Name ''client'') ''compute'') [Name ''summed''] []),
          While_stmt (Not_expr (Call_expr (Attribute (Name ''summed'') ''done'') [] []))
            [Expr_stmt (Call_expr (Name ''kill_a_worker'') [] []),
             Expr_stmt (Call_expr (Name ''sleep'') [Float_lit ''3.0''] [])]],
       \<comment> \<open>cell 16\<close>
       Markdown
         ''## Check if results match'',
       \<comment> \<open>cell 17\<close>
       Code
         [Expr_stmt (Call_expr (Name ''print'') [Joined [Str_lit ''`sum(range('', Name ''N'', Str_lit ''))` on cluster: '', Call_expr (Attribute (Name ''summed'') ''result'') [] [], Str_lit ([CHR 0x09] @ ''(should be ''), Bin_op (Name ''N'') ''*'' (Bin_op (Name ''N'') ''-'' (Int_lit 1)), Str_lit '')'']] [])]]"

text \<open>
  The statements kept above are read off from the full syntax: the name of what a call
  calls, and what an expression holds, in the order written.
\<close>

fun dotted :: "expr \<Rightarrow> string" where
  "dotted (Name n) = n"
| "dotted (Attribute e a) = dotted e @ ''.'' @ a"
| "dotted e = []"

definition call_name :: "expr \<Rightarrow> string" where
  "call_name f = (if dotted f = [] then ''(...)'' else dotted f)"

fun expr_feats :: "expr \<Rightarrow> feat list" where
  "expr_feats (Name n) = []"
| "expr_feats (Attribute e a) = expr_feats e"
| "expr_feats (Int_lit i) = []"
| "expr_feats (Float_lit l) = []"
| "expr_feats (Str_lit l) = []"
| "expr_feats (Joined es) = concat (map expr_feats es)"
| "expr_feats (Call_expr f args kws) =
     expr_feats f @ [Call (call_name f)] @ concat (map expr_feats args)
       @ concat (map (\<lambda>(k, v). expr_feats v) kws)"
| "expr_feats (Dict_lit kvs) = concat (map (\<lambda>(k, v). expr_feats k @ expr_feats v) kvs)"
| "expr_feats (List_comp elt target iter conds) =
     Comprehension # expr_feats elt @ expr_feats target @ expr_feats iter
       @ concat (map expr_feats conds)"
| "expr_feats (Subscript e i) = expr_feats e @ expr_feats i"
| "expr_feats (Slice lo hi step) =
     (case lo of None \<Rightarrow> [] | Some e \<Rightarrow> expr_feats e)
       @ (case hi of None \<Rightarrow> [] | Some e \<Rightarrow> expr_feats e)
       @ (case step of None \<Rightarrow> [] | Some e \<Rightarrow> expr_feats e)"
| "expr_feats (Bin_op l op r) = expr_feats l @ expr_feats r"
| "expr_feats (Not_expr e) = expr_feats e"
| "expr_feats (Compare l op r) = expr_feats l @ expr_feats r"


fun bound_name :: "string \<times> string option \<Rightarrow> string" where
  "bound_name (n, Some a) = a"
| "bound_name (n, None) = n"

fun abstract :: "pstmt \<Rightarrow> stmt list" where
  "abstract (Import_names ns) =
     map (\<lambda>(m, a). Import m [case a of None \<Rightarrow> takeWhile (\<lambda>c. c \<noteq> CHR ''.'') m | Some b \<Rightarrow> b]) ns"
| "abstract (From_import m ns) = [Import m (map bound_name ns)]"
| "abstract (Assign t v) = [Simple (expr_feats t @ expr_feats v)]"
| "abstract (Expr_stmt e) = [Simple (expr_feats e)]"
| "abstract (Return e) = [Simple (expr_feats e)]"
| "abstract (Function_def n params body) = [Def False n (concat (map abstract body))]"
| "abstract (If_stmt c body orelse) =
     [If (expr_feats c) (concat (map abstract body)) (concat (map abstract orelse))]"
| "abstract (While_stmt c body) = [While (expr_feats c) (concat (map abstract body))]"

fun code_of :: "cell \<Rightarrow> stmt list option" where
  "code_of (Markdown t) = None"
| "code_of (Code ss) = Some (concat (map abstract ss))"

definition code_cells :: "cell list \<Rightarrow> stmt list list" where
  "code_cells cs = List.map_filter code_of cs"

text \<open>
  Every call of the notebook, at any depth and inside function bodies too, with its
  arguments; the shape of a call is its name, the number of its positional arguments
  and the names of its keyword arguments. And every target of an assignment.
\<close>

type_synonym call = "string \<times> expr list \<times> (string \<times> expr) list"

fun expr_calls :: "expr \<Rightarrow> call list" where
  "expr_calls (Name n) = []"
| "expr_calls (Attribute e a) = expr_calls e"
| "expr_calls (Int_lit i) = []"
| "expr_calls (Float_lit l) = []"
| "expr_calls (Str_lit l) = []"
| "expr_calls (Joined es) = concat (map expr_calls es)"
| "expr_calls (Call_expr f args kws) =
     expr_calls f @ [(call_name f, args, kws)] @ concat (map expr_calls args)
       @ concat (map (\<lambda>(k, v). expr_calls v) kws)"
| "expr_calls (Dict_lit kvs) = concat (map (\<lambda>(k, v). expr_calls k @ expr_calls v) kvs)"
| "expr_calls (List_comp elt target iter conds) =
     expr_calls elt @ expr_calls target @ expr_calls iter @ concat (map expr_calls conds)"
| "expr_calls (Subscript e i) = expr_calls e @ expr_calls i"
| "expr_calls (Slice lo hi step) =
     (case lo of None \<Rightarrow> [] | Some e \<Rightarrow> expr_calls e)
       @ (case hi of None \<Rightarrow> [] | Some e \<Rightarrow> expr_calls e)
       @ (case step of None \<Rightarrow> [] | Some e \<Rightarrow> expr_calls e)"
| "expr_calls (Bin_op l op r) = expr_calls l @ expr_calls r"
| "expr_calls (Not_expr e) = expr_calls e"
| "expr_calls (Compare l op r) = expr_calls l @ expr_calls r"

fun stmt_calls :: "pstmt \<Rightarrow> call list" where
  "stmt_calls (Import_names ns) = []"
| "stmt_calls (From_import m ns) = []"
| "stmt_calls (Assign t v) = expr_calls t @ expr_calls v"
| "stmt_calls (Expr_stmt e) = expr_calls e"
| "stmt_calls (Return e) = expr_calls e"
| "stmt_calls (Function_def n params body) = concat (map stmt_calls body)"
| "stmt_calls (If_stmt c body orelse) =
     expr_calls c @ concat (map stmt_calls body) @ concat (map stmt_calls orelse)"
| "stmt_calls (While_stmt c body) = expr_calls c @ concat (map stmt_calls body)"

fun cell_calls :: "cell \<Rightarrow> call list" where
  "cell_calls (Markdown t) = []"
| "cell_calls (Code ss) = concat (map stmt_calls ss)"

definition calls :: "cell list \<Rightarrow> call list" where
  "calls cs = concat (map cell_calls cs)"

fun shape :: "call \<Rightarrow> string \<times> nat \<times> string list" where
  "shape (n, args, kws) = (n, length args, map fst kws)"

fun stmt_targets :: "pstmt \<Rightarrow> expr list" where
  "stmt_targets (Assign t v) = [t]"
| "stmt_targets (Function_def n params body) = concat (map stmt_targets body)"
| "stmt_targets (If_stmt c body orelse) =
     concat (map stmt_targets body) @ concat (map stmt_targets orelse)"
| "stmt_targets (While_stmt c body) = concat (map stmt_targets body)"
| "stmt_targets (Import_names ns) = []"
| "stmt_targets (From_import m ns) = []"
| "stmt_targets (Expr_stmt e) = []"
| "stmt_targets (Return e) = []"

fun cell_targets :: "cell \<Rightarrow> expr list" where
  "cell_targets (Markdown t) = []"
| "cell_targets (Code ss) = concat (map stmt_targets ss)"

definition assigned :: "cell list \<Rightarrow> expr list" where
  "assigned cs = concat (map cell_targets cs)"

text \<open>
  The configuration: for every call of \<open>dask.config.set\<close>, the keys and values of the
  dictionary it is given (\<open>None\<close> for an argument that is not a dictionary written out
  with literal string keys and integer values).
\<close>

fun setting :: "expr \<times> expr \<Rightarrow> (string \<times> int) option" where
  "setting (Str_lit k, Int_lit v) = Some (k, v)"
| "setting kv = None"

fun settings :: "call \<Rightarrow> (string \<times> int) option list" where
  "settings (n, [Dict_lit kvs], []) = map setting kvs"
| "settings c = [None]"

definition config_settings :: "cell list \<Rightarrow> (string \<times> int) option list" where
  "config_settings cs =
     concat (map settings (filter (\<lambda>c. fst c = ''dask.config.set'') (calls cs)))"

text \<open>
  The default the notebook states: a number in its text that is followed by
  \<open>by default\<close>, as in "a certain threshold (3 by default)".
\<close>

definition is_digit :: "char \<Rightarrow> bool" where
  "is_digit c = (c \<in> set ''0123456789'')"

definition number :: "string \<Rightarrow> nat" where
  "number ds = foldl (\<lambda>n c. 10 * n + (of_char c - 48)) 0 ds"

fun stated :: "string \<Rightarrow> nat option" where
  "stated [] = None"
| "stated (c # cs) =
     (if c = CHR ''('' \<and> takeWhile is_digit cs \<noteq> []
         \<and> prefix '' by default)'' (dropWhile is_digit cs)
      then Some (number (takeWhile is_digit cs))
      else stated cs)"

fun cell_stated :: "cell \<Rightarrow> nat option" where
  "cell_stated (Markdown t) = stated t"
| "cell_stated (Code ss) = None"

definition stated_defaults :: "cell list \<Rightarrow> nat list" where
  "stated_defaults cs = List.map_filter cell_stated cs"

text \<open>
  The notebook raises the threshold: it sets exactly the one key, to a value above the
  one default its text states.
\<close>

definition raises_threshold :: "cell list \<Rightarrow> bool" where
  "raises_threshold cs =
     (case (config_settings cs, stated_defaults cs) of
        ([Some (k, v)], [d]) \<Rightarrow> k = ''distributed.scheduler.allowed-failures'' \<and> int d < v
      | _ \<Rightarrow> False)"

section \<open>Theorems\<close>

subsection \<open>The workload and the kill loop\<close>









lemma random_choice_in: "xs \<noteq> [] \<Longrightarrow> random_choice r xs \<in> set xs"
  by (simp add: random_choice_def)

lemma kill_a_worker_target:
  "kill_a_worker np workers r = Some (p, s) \<Longrightarrow> p \<notin> set np \<and> p \<in> set workers \<and> s = 15"
proof -
  assume k: "kill_a_worker np workers r = Some (p, s)"
  then have ne: "preemptible_workers np workers \<noteq> []"
    by (auto simp: kill_a_worker_def split: if_splits)
  with k have "p = random_choice r (preemptible_workers np workers)" and "s = 15"
    by (auto simp: kill_a_worker_def)
  with random_choice_in [OF ne, of r] have "p \<in> set (preemptible_workers np workers)"
    by simp
  then show ?thesis using \<open>s = 15\<close> by (simp add: preemptible_workers_def)
qed

lemma kill_loop_targets:
  "(p, s) \<in> set (kill_loop np rounds) \<Longrightarrow> p \<notin> set np \<and> s = 15"
proof (induction rounds)
  case Nil
  then show ?case by simp
next
  case (Cons a rounds)
  obtain workers r where a: "a = (workers, r)" by (cases a)
  show ?case
  proof (cases "kill_a_worker np workers r")
    case None
    with Cons a show ?thesis by simp
  next
    case (Some q)
    with Cons a have "(p, s) = q \<or> (p, s) \<in> set (kill_loop np rounds)" by auto
    then show ?thesis
      using Some Cons.IH kill_a_worker_target [of np workers r p s] by auto
  qed
qed

text \<open>
  C8. Whatever workers the cluster has and whatever the random generator draws, a signal
  sent by \<open>kill_a_worker\<close> goes to a process id outside \<open>non_preemptible_workers\<close> (and
  is signal 15 to one of the current workers); when no worker is preemptible no signal
  is sent. The same holds for every signal the loop of cell 15 sends, so the two
  workers marked non-preemptible are never killed by the notebook.
\<close>

theorem kill_a_worker_spares_non_preemptible:
  "(kill_a_worker np workers r = Some (p, s) \<longrightarrow> p \<notin> set np \<and> p \<in> set workers \<and> s = 15)
   \<and> (preemptible_workers np workers = [] \<longrightarrow> kill_a_worker np workers r = None)
   \<and> (\<forall>q \<in> set (kill_loop (non_preemptible_workers ws) rounds).
         fst q \<notin> set (take 2 ws))"
proof (intro conjI impI ballI)
  assume "kill_a_worker np workers r = Some (p, s)"
  from kill_a_worker_target [OF this]
  show "p \<notin> set np" and "p \<in> set workers" and "s = 15" by simp_all
next
  assume "preemptible_workers np workers = []"
  then show "kill_a_worker np workers r = None" by (simp add: kill_a_worker_def)
next
  fix q assume "q \<in> set (kill_loop (non_preemptible_workers ws) rounds)"
  then have "(fst q, snd q) \<in> set (kill_loop (non_preemptible_workers ws) rounds)" by simp
  from kill_loop_targets [OF this]
  show "fst q \<notin> set (take 2 ws)" by (simp add: non_preemptible_workers_def)
qed

theorem kill_a_worker_spares_non_preemptible_witness:
  "kill_a_worker [11, 12] [11, 12, 13, 14] 1 = Some (14, 15) \<and> (14::int) \<notin> set [11, 12]
   \<and> preemptible_workers [11, 12] [12, 11] = [] \<and> kill_a_worker [11, 12] [12, 11] 1 = None
   \<and> kill_loop (non_preemptible_workers [11, 12, 13, 14])
        [([11, 12, 13, 14], 1), ([11, 12], 0), ([11, 12, 13, 21], 0)] = [(14, 15), (13, 15)]"
  using kill_a_worker_spares_non_preemptible
    [of "[11, 12]" "[11, 12, 13, 14]" 1 14 15 "[11, 12, 13, 14]"
        "[([11, 12, 13, 14], 1), ([11, 12], 0), ([11, 12, 13, 21], 0)]"]
  by (simp add: kill_a_worker_def preemptible_workers_def random_choice_def
      non_preemptible_workers_def)

subsection \<open>The hyper-parameter grid\<close>

lemma length_combinations:
  "length (combinations grid) = foldr (*) (map (length \<circ> snd) grid) 1"
  by (simp add: combinations_def length_product_lists)

text \<open>
  C10. The grid has 8 values of C, 3 kernels and 2 shrinking settings, and so
  8 * 3 * 2 = 48 combinations, no two of them the same: the 48 models of the notebook's
  text.
\<close>

theorem param_grid_48:
  "map (\<lambda>(k, vs). (k, length vs)) param_grid = [(''C'', 8), (''kernel'', 3), (''shrinking'', 2)]
   \<and> length (combinations param_grid) = 8 * 3 * 2
   \<and> length (combinations param_grid) = 48
   \<and> distinct (combinations param_grid)"
proof -
  have d: "distinct (product_lists (map snd param_grid))"
    by (rule distinct_product_lists) (simp add: param_grid_def)
  have "inj_on (zip (map fst param_grid)) (set (product_lists (map snd param_grid)))"
  proof (rule inj_onI)
    fix xs ys
    assume "xs \<in> set (product_lists (map snd param_grid))"
      and "ys \<in> set (product_lists (map snd param_grid))"
      and z: "zip (map fst param_grid) xs = zip (map fst param_grid) ys"
    then have "length xs = length (map fst param_grid)" "length ys = length (map fst param_grid)"
      by (simp_all add: in_set_product_lists_length)
    then have "xs = map snd (zip (map fst param_grid) xs)" "ys = map snd (zip (map fst param_grid) ys)"
      by simp_all
    with z show "xs = ys" by simp
  qed
  with d have "distinct (combinations param_grid)"
    by (simp add: combinations_def distinct_map)
  moreover have "length (combinations param_grid) = 48"
    by (simp add: length_combinations param_grid_def)
  ultimately show ?thesis by (simp add: param_grid_def)
qed

subsection \<open>The CI workflows\<close>

lemma commands_update_dependencies:
  "commands ci_update_dependencies =
     [[''mamba'', ''install'', ''nbconvert'', ''nbformat'', ''jupyter_client'',
       ''ipykernel'', ''nbmake'', ''pytest-xdist''],
      [''pytest'', ''-vv'', ''-n=auto'', ''--forked'', ''--nbmake'', ''--overwrite'',
       ''--ignore'', ''machine-learning/torch-prediction.ipynb'',
       ''--ignore'', ''applications/json-data-on-the-web.ipynb'']]"
  by (simp add: commands_def ci_update_dependencies_def)

lemma commands_repo2docker:
  "commands ci_repo2docker =
     [[''python'', ''-m'', ''pip'', ''install'', ''--upgrade'', ''pip''],
      [''python'', ''-m'', ''pip'', ''install'', ''jupyter-repo2docker''],
      [''jupyter-repo2docker'', ''--no-run'', ''--debug'', ''.'']]"
  by (simp add: commands_def ci_repo2docker_def)









text \<open>
  C2, as stated, fails: no workflow of the repository both builds a container image and
  executes notebooks.
\<close>

theorem no_workflow_builds_and_executes:
  "filter builds_and_executes workflows = []"
  by (simp add: workflows_def builds_and_executes_def builds_image_def
      executes_notebooks_def commands_repo2docker commands_update_dependencies
      is_image_build_def is_notebook_run_def)

text \<open>
  C2, amended. The repository has two CI workflows. One, \<open>repo2docker CI\<close>, builds a
  container image and executes no notebook; the other, \<open>Update Dependencies\<close>, builds no
  image and executes the notebooks as tests, with exactly two notebooks explicitly
  excluded.
\<close>

theorem two_workflows_two_exclusions:
  "map wf_name (filter builds_image workflows) = [''repo2docker CI'']
   \<and> map wf_name (filter executes_notebooks workflows) = [''Update Dependencies'']
   \<and> excluded_notebooks ci_update_dependencies =
       [''machine-learning/torch-prediction.ipynb'',
        ''applications/json-data-on-the-web.ipynb'']
   \<and> length (excluded_notebooks ci_update_dependencies) = 2
   \<and> distinct (excluded_notebooks ci_update_dependencies)
   \<and> list_all is_notebook (excluded_notebooks ci_update_dependencies)"
proof -
  have e: "excluded_notebooks ci_update_dependencies =
       [''machine-learning/torch-prediction.ipynb'',
        ''applications/json-data-on-the-web.ipynb'']"
    by (simp add: excluded_notebooks_def commands_update_dependencies is_notebook_run_def)
  have b: "filter builds_image workflows = [ci_repo2docker]"
    by (simp add: workflows_def builds_image_def commands_repo2docker
        commands_update_dependencies is_image_build_def)
  have x: "filter executes_notebooks workflows = [ci_update_dependencies]"
    by (simp add: workflows_def executes_notebooks_def commands_repo2docker
        commands_update_dependencies is_notebook_run_def)
  have "wf_name ci_repo2docker = ''repo2docker CI''"
    by (simp add: ci_repo2docker_def)
  moreover have "wf_name ci_update_dependencies = ''Update Dependencies''"
    by (simp add: ci_update_dependencies_def)
  ultimately show ?thesis
    by (simp add: b x e is_notebook_def suffix_to_prefix)
qed

subsection \<open>The startup script\<close>

lemma segments_not_Nil [simp]: "segments p s \<noteq> []"
  by (induction p s rule: segments.induct) (auto split: list.splits)

lemma split_lines_not_Nil [simp]: "split_lines s \<noteq> []"
  by (induction s) (auto split: list.splits)

lemma split_lines_step:
  "split_lines (c # cs) =
     (if c = CHR 0x0A then [] # split_lines cs
      else (c # hd (split_lines cs)) # tl (split_lines cs))"
  using split_lines_not_Nil [of cs] by (cases "split_lines cs") auto

lemma segments_step:
  "segments p (c # cs) =
     (if p \<noteq> [] \<and> prefix p (c # cs) then [] # segments p (drop (length p - 1) cs)
      else (c # hd (segments p cs)) # tl (segments p cs))"
  using segments_not_Nil [of p cs] by (cases "segments p cs") auto

declare split_lines.simps(2) [simp del] segments.simps(2) [simp del]
declare split_lines_step [simp] segments_step [simp]

lemma join_Cons: "ys \<noteq> [] \<Longrightarrow> join sep (x # ys) = x @ sep @ join sep ys"
  by (cases ys) auto

lemma join_Cons_hd: "ys \<noteq> [] \<Longrightarrow> join sep ((c # hd ys) # tl ys) = c # join sep ys"
  by (cases ys; cases "tl ys") auto

lemma prefix_drop: "prefix p (c # cs) \<Longrightarrow> p \<noteq> [] \<Longrightarrow> c # cs = p @ drop (length p - 1) cs"
  by (cases p) (auto simp: prefix_def)

lemma join_segments: "join p (segments p s) = s"
proof (induction p s rule: segments.induct)
  case (1 p)
  then show ?case by simp
next
  case (2 p c cs)
  show ?case
  proof (cases "p \<noteq> [] \<and> prefix p (c # cs)")
    case True
    then have "join p (segments p (c # cs)) = p @ join p (segments p (drop (length p - 1) cs))"
      by (simp add: join_Cons)
    also have "\<dots> = p @ drop (length p - 1) cs" using 2 True by simp
    also have "\<dots> = c # cs" using prefix_drop [of p c cs] True by simp
    finally show ?thesis .
  next
    case False
    then show ?thesis using 2 by (auto simp: join_Cons_hd)
  qed
qed

lemma substitute_segments: "substitute p r s = join r (segments p s)"
proof (induction p s rule: segments.induct)
  case (1 p)
  then show ?case by simp
next
  case (2 p c cs)
  show ?case
  proof (cases "p \<noteq> [] \<and> prefix p (c # cs)")
    case True
    then show ?thesis using 2 by (simp add: join_Cons)
  next
    case False
    then show ?thesis using 2 by (auto simp: join_Cons_hd)
  qed
qed

lemma hd_segments_prefix: "prefix (hd (segments p s)) s"
  by (induction p s rule: segments.induct) auto

lemma segments_free: "p \<noteq> [] \<Longrightarrow> seg \<in> set (segments p s) \<Longrightarrow> \<not> sublist p seg"
proof (induction p s arbitrary: seg rule: segments.induct)
  case (1 p)
  then show ?case by simp
next
  case (2 p c cs)
  show ?case
  proof (cases "prefix p (c # cs)")
    case True
    then show ?thesis using 2 by auto
  next
    case False
    let ?S = "segments p cs"
    from False 2 have "seg = c # hd ?S \<or> seg \<in> set (tl ?S)" by auto
    then show ?thesis
    proof
      assume s: "seg = c # hd ?S"
      have "hd ?S \<in> set ?S" by simp
      then have a: "\<not> sublist p (hd ?S)" using 2 False by auto
      have "prefix (c # hd ?S) (c # cs)" using hd_segments_prefix by simp
      then have "\<not> prefix p (c # hd ?S)" using False prefix_order.trans by blast
      with a s show ?thesis by (simp add: sublist_Cons_right)
    next
      assume "seg \<in> set (tl ?S)"
      then have "seg \<in> set ?S" by (meson list.set_sel(2) segments_not_Nil)
      then show ?thesis using 2 False by auto
    qed
  qed
qed

lemma split_lines_append:
  "CHR 0x0A \<notin> set p \<Longrightarrow>
   split_lines (p @ s) = (p @ hd (split_lines s)) # tl (split_lines s)"
  by (induction p) auto

lemma hd_split_lines_prefix: "prefix (hd (split_lines s)) s"
  by (induction s) auto

lemma substitute_append: "p \<noteq> [] \<Longrightarrow> substitute p r (p @ s) = r @ substitute p r s"
  by (cases p) auto

lemma sed_lines_Cons_hd:
  "ys \<noteq> [] \<Longrightarrow> f (c # hd ys) = c # f (hd ys) \<Longrightarrow>
   join sep (f (c # hd ys) # map f (tl ys)) = c # join sep (map f ys)"
  by (cases ys; cases "tl ys") auto

lemma sed_lines_append:
  assumes "p \<noteq> []" "CHR 0x0A \<notin> set p"
  shows "sed_lines p r (p @ s) = r @ sed_lines p r s"
proof -
  obtain l ls where L: "split_lines s = l # ls" by (cases "split_lines s") auto
  have "split_lines (p @ s) = (p @ l) # ls"
    using assms L by (simp add: split_lines_append)
  then show ?thesis using assms L
    by (cases ls) (simp_all add: sed_lines_def substitute_append)
qed

lemma sed_lines_substitute:
  "p \<noteq> [] \<Longrightarrow> CHR 0x0A \<notin> set p \<Longrightarrow> sed_lines p r s = substitute p r s"
proof (induction p r s rule: substitute.induct)
  case (1 p r)
  then show ?case by (simp add: sed_lines_def)
next
  case (2 p r c cs)
  show ?case
  proof (cases "prefix p (c # cs)")
    case True
    let ?rest = "drop (length p - 1) cs"
    have e: "c # cs = p @ ?rest" using prefix_drop [OF True 2(3)] .
    have "sed_lines p r (p @ ?rest) = r @ sed_lines p r ?rest"
      using sed_lines_append [OF 2(3,4)] .
    moreover have "sed_lines p r ?rest = substitute p r ?rest" using 2(1) [OF _ 2(3,4)] True 2(3) by simp
    moreover have "substitute p r (c # cs) = r @ substitute p r ?rest" using True 2(3) by simp
    ultimately show ?thesis by (simp only: e)
  next
    case False
    have ih: "sed_lines p r cs = substitute p r cs" using 2(2) [OF _ 2(3,4)] False by simp
    show ?thesis
    proof (cases "c = CHR 0x0A")
      case True
      then have "sed_lines p r (c # cs) = c # sed_lines p r cs"
        by (simp add: sed_lines_def join_Cons)
      then show ?thesis using ih False by simp
    next
      case nl: False
      have "prefix (c # hd (split_lines cs)) (c # cs)" using hd_split_lines_prefix by simp
      then have "\<not> prefix p (c # hd (split_lines cs))"
        using False prefix_order.trans by blast
      then have st: "substitute p r (c # hd (split_lines cs)) = c # substitute p r (hd (split_lines cs))"
        by simp
      have "join [CHR 0x0A] (substitute p r (c # hd (split_lines cs)) # map (substitute p r) (tl (split_lines cs)))
            = c # join [CHR 0x0A] (map (substitute p r) (split_lines cs))"
        by (rule sed_lines_Cons_hd) (simp, rule st)
      moreover have "map (substitute p r) (split_lines (c # cs))
            = substitute p r (c # hd (split_lines cs)) # map (substitute p r) (tl (split_lines cs))"
        using nl by (simp del: substitute.simps)
      ultimately have "sed_lines p r (c # cs) = c # sed_lines p r cs"
        by (simp only: sed_lines_def)
      then show ?thesis using ih False by simp
    qed
  qed
qed

lemma read_replacement_plain:
  "list_all (\<lambda>c. c \<noteq> d \<and> c \<noteq> CHR ''&'' \<and> c \<noteq> CHR 0x5C \<and> c \<noteq> CHR 0x0A) v \<Longrightarrow>
   read_replacement d (v @ d # flags) = Replacement (map Lit v) flags"
  by (induction v) auto

lemma render_Lit: "render (map Lit v) m = v"
  by (induction v) auto

lemma plain_append: "plain (u @ v) \<longleftrightarrow> plain u \<and> plain v"
  by (simp add: plain_def)

lemma plain_url:
  "plain (expand env ''JUPYTERHUB_BASE_URL'') \<Longrightarrow> plain (expand env ''JUPYTERHUB_USER'') \<Longrightarrow>
   plain (dashboard_url env)"
  by (simp add: dashboard_url_def plain_append) (simp add: plain_def)

lemma sed_expression_url:
  "sed_expression env = CHR ''s'' # CHR ''|'' # placeholder @ CHR ''|'' # dashboard_url env @ ''|g''"
  by (simp add: sed_expression_def placeholder_def dashboard_url_def)

lemma read_regex_placeholder:
  "read_regex CHR ''|'' (placeholder @ CHR ''|'' # rest) = Some (placeholder, rest)"
  by (simp add: placeholder_def)

lemma literal_placeholder: "literal_regex placeholder"
  by (simp add: literal_regex_def placeholder_def regex_special_def)

lemma parse_plain:
  assumes "plain (dashboard_url env)"
  shows "parse_s (sed_expression env) = Global_subst placeholder (map Lit (dashboard_url env))"
proof -
  have "read_replacement CHR ''|'' (dashboard_url env @ CHR ''|'' # ''g'')
        = Replacement (map Lit (dashboard_url env)) ''g''"
    by (rule read_replacement_plain) (use assms in \<open>simp add: plain_def list_all_iff\<close>)
  then show ?thesis
    by (simp add: sed_expression_url parse_s_def read_regex_placeholder literal_placeholder)
qed

lemma placeholder_facts: "placeholder \<noteq> []" "CHR 0x0A \<notin> set placeholder"
  by (simp_all add: placeholder_def)

lemma ancestors_workspaces_dir:
  "ancestors workspaces_dir =
     [''~'', ''~/.jupyter'', ''~/.jupyter/lab'', ''~/.jupyter/lab/workspaces'']"
  by code_simp

lemma parent_default_workspace: "parent default_workspace = ''~/.jupyter/lab/workspaces''"
  by code_simp

lemma with_dirs_apply: "with_dirs ds fs p = (if p \<in> set ds then Some Dir else fs p)"
  by (induction ds arbitrary: fs) auto

lemma mkdir_chain_ok:
  assumes "\<forall>d \<in> set ds. (fs d = None \<or> fs d = Some Dir) \<and> \<not> h Make_dir d"
  shows "mkdir_chain h ds fs = (with_dirs ds fs, True)"
  using assms
proof (induction ds arbitrary: fs)
  case Nil
  then show ?case by simp
next
  case (Cons d ds)
  show ?case
  proof (cases "fs d")
    case None
    have "\<forall>d' \<in> set ds. ((fs(d \<mapsto> Dir)) d' = None \<or> (fs(d \<mapsto> Dir)) d' = Some Dir)
            \<and> \<not> h Make_dir d'"
      using Cons.prems by auto
    from Cons.IH [OF this]
    have "mkdir_chain h ds (fs(d \<mapsto> Dir)) = (with_dirs ds (fs(d \<mapsto> Dir)), True)" .
    moreover have "\<not> h Make_dir d" using Cons.prems by simp
    ultimately show ?thesis using None by (simp del: fun_upd_apply)
  next
    case (Some n)
    with Cons.prems have d: "fs d = Some Dir" by auto
    then have e: "fs(d \<mapsto> Dir) = fs" by (simp add: fun_upd_idem)
    have "\<forall>d' \<in> set ds. (fs d' = None \<or> fs d' = Some Dir) \<and> \<not> h Make_dir d'"
      using Cons.prems by auto
    from Cons.IH [OF this]
    have "mkdir_chain h ds fs = (with_dirs ds fs, True)" .
    then show ?thesis using d e by (simp del: fun_upd_apply)
  qed
qed

text \<open>
  C3, as stated, fails: with \<open>JUPYTERHUB_USER\<close> set to \<open>a&b\<close>, the placeholder in the
  workspace file is replaced by a text that is not the URL derived from the
  environment, since \<open>sed\<close> reads the \<open>&\<close> as the matched text.
\<close>

theorem start_ampersand_not_url:
  "file_at_exec (start permissive env_ampersand [''jupyter-notebook''] fs_sample)
     default_workspace
     = Some (File ''url: /user/aDASK_DASHBOARD_URLb/proxy/8787/status'')
   \<and> dashboard_url env_ampersand = ''/user/a&b/proxy/8787''"
  by code_simp

text \<open>
  With a newline in \<open>JUPYTERHUB_USER\<close> the expression is rejected: the file is moved
  with the placeholder still in it, and the command is launched all the same.
\<close>

lemma start_newline_keeps_placeholder:
  "parse_s (sed_expression env_newline) = Rejected
   \<and> file_at_exec (start permissive env_newline [''jupyter-notebook''] fs_sample)
         default_workspace
       = Some (File ''url: DASK_DASHBOARD_URL/status'')"
  by code_simp

text \<open>
  When \<open>mkdir -p\<close> fails, here because \<open>~/.jupyter\<close> is a regular file, \<open>mv\<close> fails too
  and the command is launched with the file, substituted, still at its old path.
\<close>

lemma start_blocked_leaves_file:
  "snd (mkdir_p permissive workspaces_dir fs_blocked) = False
   \<and> file_at_exec (start permissive env_sample [''jupyter-notebook''] fs_blocked) workspace
       = Some (File ''url: /user/jovyan/proxy/8787/status'')
   \<and> file_at_exec (start permissive env_sample [''jupyter-notebook''] fs_blocked)
         default_workspace
       = None"
  by code_simp

text \<open>
  C3, amended. For every workspace file and for all values of \<open>JUPYTERHUB_BASE_URL\<close> and
  \<open>JUPYTERHUB_USER\<close> (unset counting as empty) that hold none of the characters \<open>|\<close>,
  \<open>&\<close>, backslash and newline, when the three commands before \<open>exec\<close> succeed, that
  is: no regular file stands where \<open>mkdir -p\<close> needs a directory, the target of \<open>mv\<close>
  is not a directory, and the host refuses neither the edit, nor the making of the
  directories, nor the move. Then the file is its pieces joined by the placeholder, no
  piece holding the placeholder, and when the script comes to launch the command given
  as its arguments, the file is no longer at its old path, the default workspace file
  holds the same pieces joined by the URL
  \<open>${JUPYTERHUB_BASE_URL}user/${JUPYTERHUB_USER}/proxy/8787\<close>, the directories on the way
  to it are there, and everything else is as it was.
\<close>

theorem start_substitutes:
  assumes "fs workspace = Some (File text)"
    and "plain (expand env ''JUPYTERHUB_BASE_URL'')"
    and "plain (expand env ''JUPYTERHUB_USER'')"
    and "\<forall>d \<in> set (ancestors workspaces_dir).
           (fs d = None \<or> fs d = Some Dir) \<and> \<not> h Make_dir d"
    and "fs default_workspace \<noteq> Some Dir"
    and "\<not> h Edit workspace"
    and "\<not> h Rename default_workspace"
  shows "\<exists>segs. text = join placeholder segs
           \<and> (\<forall>seg \<in> set segs. \<not> sublist placeholder seg)
           \<and> start h env args fs =
               Exec ((with_dirs (ancestors workspaces_dir) fs)
                       (workspace := None,
                        default_workspace \<mapsto> File (join (dashboard_url env) segs))) args"
proof (intro exI conjI ballI)
  show "text = join placeholder (segments placeholder text)"
    by (simp add: join_segments)
  show "\<not> sublist placeholder seg" if "seg \<in> set (segments placeholder text)" for seg
    using segments_free [OF placeholder_facts(1) that] .
  let ?new = "join (dashboard_url env) (segments placeholder text)"
  let ?anc = "ancestors workspaces_dir"
  let ?fs1 = "fs(workspace \<mapsto> File ?new)"
  have new: "sed_lines placeholder (dashboard_url env) text = ?new"
    by (simp add: sed_lines_substitute placeholder_facts substitute_segments)
  have sed: "sed_in_place h placeholder (map Lit (dashboard_url env)) workspace fs = ?fs1"
    using assms(1,6) new by (simp add: sed_in_place_def render_Lit)
  have w: "workspace \<notin> set ?anc" "default_workspace \<notin> set ?anc"
    "workspace \<noteq> default_workspace" "''~/.jupyter/lab/workspaces'' \<in> set ?anc"
    by (simp_all add: ancestors_workspaces_dir workspace_def default_workspace_def)
  have "\<forall>d \<in> set ?anc. (?fs1 d = None \<or> ?fs1 d = Some Dir) \<and> \<not> h Make_dir d"
    using assms(4) w(1) by auto
  from mkdir_chain_ok [where ds = "?anc" and fs = "?fs1" and h = h, OF this]
  have mk: "mkdir_p h workspaces_dir ?fs1 = (with_dirs ?anc ?fs1, True)"
    by (simp add: mkdir_p_def)
  let ?fs2 = "with_dirs ?anc ?fs1"
  have l: "?fs2 workspace = Some (File ?new)" "?fs2 (parent default_workspace) = Some Dir"
    "?fs2 default_workspace = fs default_workspace"
    using w by (simp_all add: with_dirs_apply parent_default_workspace)
  have mv: "mv h workspace default_workspace ?fs2
            = Some ((?fs2(workspace := None))(default_workspace \<mapsto> File ?new), True)"
    using l assms(5,7)
    by (simp add: mv_def rename_file_def split: option.splits node.splits)
  have eq: "(?fs2(workspace := None))(default_workspace \<mapsto> File ?new)
            = (with_dirs ?anc fs)(workspace := None, default_workspace \<mapsto> File ?new)"
    by (rule ext) (simp add: with_dirs_apply)
  show "start h env args fs =
      Exec ((with_dirs ?anc fs)(workspace := None, default_workspace \<mapsto> File ?new)) args"
    by (simp only: start_def parse_plain [OF plain_url [OF assms(2,3)]] sed_script.case
        sed move_and_exec_def mk fst_conv mv option.case prod.case eq)
qed

theorem start_substitutes_witness:
  "fs_sample workspace = Some (File ''url: DASK_DASHBOARD_URL/status'')
   \<and> plain (expand env_sample ''JUPYTERHUB_BASE_URL'')
   \<and> plain (expand env_sample ''JUPYTERHUB_USER'')
   \<and> list_all (\<lambda>d. (fs_sample d = None \<or> fs_sample d = Some Dir)
                        \<and> \<not> permissive Make_dir d)
         (ancestors workspaces_dir)
   \<and> fs_sample default_workspace \<noteq> Some Dir
   \<and> \<not> permissive Edit workspace
   \<and> \<not> permissive Rename default_workspace
   \<and> (\<exists>segs. ''url: DASK_DASHBOARD_URL/status'' = join placeholder segs
          \<and> (\<forall>seg \<in> set segs. \<not> sublist placeholder seg)
          \<and> start permissive env_sample [''jupyter-notebook''] fs_sample =
              Exec ((with_dirs (ancestors workspaces_dir) fs_sample)
                      (workspace := None,
                       default_workspace \<mapsto> File (join (dashboard_url env_sample) segs)))
                   [''jupyter-notebook''])
   \<and> file_at_exec (start permissive env_sample [''jupyter-notebook''] fs_sample)
         default_workspace
       = Some (File ''url: /user/jovyan/proxy/8787/status'')
   \<and> file_at_exec (start permissive env_sample [''jupyter-notebook''] fs_sample)
         workspace
       = None"
proof -
  have h1: "fs_sample workspace = Some (File ''url: DASK_DASHBOARD_URL/status'')"
    by (simp add: fs_sample_def)
  have h2: "plain (expand env_sample ''JUPYTERHUB_BASE_URL'')"
    by (simp add: plain_def expand_def env_sample_def)
  have h3: "plain (expand env_sample ''JUPYTERHUB_USER'')"
    by (simp add: plain_def expand_def env_sample_def)
  have h4: "\<forall>d \<in> set (ancestors workspaces_dir).
         (fs_sample d = None \<or> fs_sample d = Some Dir) \<and> \<not> permissive Make_dir d"
    by (simp add: ancestors_workspaces_dir fs_sample_def workspace_def permissive_def)
  have h5: "fs_sample default_workspace \<noteq> Some Dir"
    by (simp add: fs_sample_def workspace_def default_workspace_def)
  have h6: "\<not> permissive Edit workspace" "\<not> permissive Rename default_workspace"
    by (simp_all add: permissive_def)
  have h7: "file_at_exec (start permissive env_sample [''jupyter-notebook''] fs_sample)
         default_workspace
       = Some (File ''url: /user/jovyan/proxy/8787/status'')"
    by code_simp
  have h8: "file_at_exec (start permissive env_sample [''jupyter-notebook''] fs_sample)
         workspace
       = None"
    by code_simp
  from start_substitutes
         [of fs_sample "''url: DASK_DASHBOARD_URL/status''" env_sample permissive
             "[''jupyter-notebook'']",
          OF h1 h2 h3 h4 h5 h6]
    h1 h2 h3 h4 h5 h6 h7 h8
  show ?thesis by (simp only: list_all_iff) blast
qed

subsection \<open>The notebooks\<close>

lemma in_notebooks:
  "resilience \<in> set notebooks" "survey_2020 \<in> set notebooks"
  "evolving_workflows \<in> set notebooks" "json_data_on_the_web \<in> set notebooks"
  by (simp_all add: notebooks_def)

text \<open>
  C4. The cells of the resilience notebook, in full, are the ones the statements above
  were taken from. Among all its calls there is one of \<open>dask.config.set\<close>, given one
  key, \<open>distributed.scheduler.allowed-failures\<close>, with the value 100; the text of the
  notebook states 3 as the default, so the value is raised. Nothing else of the
  notebook configures failures: its only keyword arguments are \<open>threads_per_worker\<close>,
  \<open>n_workers\<close> and \<open>memory_limit\<close> of \<open>LocalCluster\<close> and \<open>npartitions\<close> of
  \<open>from_sequence\<close>, and it assigns to plain names only.
\<close>

theorem resilience_sets_allowed_failures_only:
  "code_cells resilience_source = cells resilience
   \<and> config_settings resilience_source =
       [Some (''distributed.scheduler.allowed-failures'', 100)]
   \<and> stated_defaults resilience_source = [3]
   \<and> raises_threshold resilience_source
   \<and> map shape (calls resilience_source) =
       [(''dask.config.set'', 1, []),
        (''LocalCluster'', 0, [''threads_per_worker'', ''n_workers'', ''memory_limit'']),
        (''Client'', 1, []),
        (''sleep'', 1, []),
        (''db.from_sequence'', 1, [''npartitions'']),
        (''range'', 1, []),
        (''x.map'', 1, []),
        (''mults.sum'', 0, []),
        (''cluster.scheduler.workers.values'', 0, []),
        (''cluster.scheduler.workers.values'', 0, []),
        (''os.kill'', 2, []),
        (''random.choice'', 1, []),
        (''client.compute'', 1, []),
        (''summed.done'', 0, []),
        (''kill_a_worker'', 0, []),
        (''sleep'', 1, []),
        (''print'', 1, []),
        (''summed.result'', 0, [])]
   \<and> assigned resilience_source =
       [Name ''cluster'', Name ''client'', Name ''N'', Name ''x'', Name ''mults'',
        Name ''summed'', Name ''all_current_workers'', Name ''non_preemptible_workers'',
        Name ''preemptible_workers'', Name ''summed'']"
proof (intro conjI)
  show "code_cells resilience_source = cells resilience"
    by code_simp
  show "config_settings resilience_source =
       [Some (''distributed.scheduler.allowed-failures'', 100)]"
    by code_simp
  show "stated_defaults resilience_source = [3]"
    by code_simp
  show "raises_threshold resilience_source"
    by code_simp
  show "map shape (calls resilience_source) =
       [(''dask.config.set'', 1, []),
        (''LocalCluster'', 0, [''threads_per_worker'', ''n_workers'', ''memory_limit'']),
        (''Client'', 1, []),
        (''sleep'', 1, []),
        (''db.from_sequence'', 1, [''npartitions'']),
        (''range'', 1, []),
        (''x.map'', 1, []),
        (''mults.sum'', 0, []),
        (''cluster.scheduler.workers.values'', 0, []),
        (''cluster.scheduler.workers.values'', 0, []),
        (''os.kill'', 2, []),
        (''random.choice'', 1, []),
        (''client.compute'', 1, []),
        (''summed.done'', 0, []),
        (''kill_a_worker'', 0, []),
        (''sleep'', 1, []),
        (''print'', 1, []),
        (''summed.result'', 0, [])]"
    by code_simp
  show "assigned resilience_source =
       [Name ''cluster'', Name ''client'', Name ''N'', Name ''x'', Name ''mults'',
        Name ''summed'', Name ''all_current_workers'', Name ''non_preemptible_workers'',
        Name ''preemptible_workers'', Name ''summed'']"
    by code_simp
qed

text \<open>
  C5, as stated, fails: the resilience notebook has an \<open>if\<close> (in \<open>kill_a_worker\<close>) and a
  \<open>while\<close> loop of its own.
\<close>

theorem resilience_has_loop_and_branch:
  "resilience \<in> set notebooks \<and> control_flow resilience = [Control_if, Control_while]"
proof -
  have "control_flow resilience = [Control_if, Control_while]"
    by code_simp
  then show ?thesis using in_notebooks(1) by simp
qed

text \<open>
  C5, amended. Six of the ten notebooks hold no \<open>for\<close>, \<open>while\<close> or \<open>if\<close>
  statement: their code is a sequence of imports, simple statements, function
  definitions and \<open>with\<close> blocks. The other four have loops or branches of their own:
  the resilience notebook an \<open>if\<close> and a \<open>while\<close>, the data-access notebook an \<open>if\<close>,
  the evolving-workflows notebook and the embarrassingly-parallel notebook four \<open>for\<close>
  loops each.
\<close>

theorem straight_line_notebooks:
  "map nb_title (filter straight_line notebooks) =
     [''2020 Dask User Survey Results'',
      ''Scale Scikit-Learn for Small Data Problems'',
      ''Generalized Linear Models'',
      ''Use Voting Classifiers'',
      ''Dask for Machine Learning'',
      ''Analyze web-hosted JSON data'']
   \<and> control_flow resilience = [Control_if, Control_while]
   \<and> control_flow data_access = [Control_if]
   \<and> control_flow evolving_workflows = [Control_for, Control_for, Control_for, Control_for]
   \<and> control_flow embarrassingly_parallel =
       [Control_for, Control_for, Control_for, Control_for]"
  by code_simp

text \<open>
  C6, as stated, fails: the survey notebook imports no module of the framework and
  creates no client, and the notebook on web-hosted JSON data reads a bag before it
  creates its client.
\<close>

theorem survey_without_framework:
  "survey_2020 \<in> set notebooks \<and> \<not> imports_framework survey_2020
   \<and> \<not> creates_client survey_2020
   \<and> json_data_on_the_web \<in> set notebooks
   \<and> framework_calls_before_client json_data_on_the_web = [''db.read_text'']"
proof -
  have "\<not> imports_framework survey_2020" by code_simp
  moreover have "\<not> creates_client survey_2020" by code_simp
  moreover have "framework_calls_before_client json_data_on_the_web = [''db.read_text'']"
    by code_simp
  ultimately show ?thesis using in_notebooks(2,4) by simp
qed

text \<open>
  C6, amended. Every notebook other than the survey notebook imports the framework and
  creates a client. In seven of these nine no call into the framework comes before the
  client is created; the resilience notebook first sets the configuration and builds the
  \<open>LocalCluster\<close> it hands to the client, and the notebook on web-hosted JSON data first
  reads a bag. The survey notebook imports no module of the framework and creates no
  client.
\<close>

theorem framework_and_client_notebooks:
  "map nb_title (filter framework_and_client notebooks) =
     [''Resilience against hardware failures'',
      ''DataFrames: Read and Write Data'',
      ''Scale Scikit-Learn for Small Data Problems'',
      ''Generalized Linear Models'',
      ''Use Voting Classifiers'',
      ''Dask for Machine Learning'',
      ''Handle Evolving Workflows'',
      ''Embarrassingly parallel Workloads'',
      ''Analyze web-hosted JSON data'']
   \<and> map nb_title (filter client_first notebooks) =
     [''DataFrames: Read and Write Data'',
      ''Scale Scikit-Learn for Small Data Problems'',
      ''Generalized Linear Models'',
      ''Use Voting Classifiers'',
      ''Dask for Machine Learning'',
      ''Handle Evolving Workflows'',
      ''Embarrassingly parallel Workloads'']
   \<and> framework_calls_before_client resilience = [''dask.config.set'', ''LocalCluster'']
   \<and> framework_calls_before_client json_data_on_the_web = [''db.read_text'']
   \<and> \<not> imports_framework survey_2020 \<and> \<not> creates_client survey_2020"
  by code_simp

text \<open>
  C7, as stated, fails: the evolving-workflows notebook defines two coroutines of its
  own, \<open>f\<close> and \<open>run_all\<close>, which await three times.
\<close>

theorem evolving_workflows_defines_coroutines:
  "evolving_workflows \<in> set notebooks
   \<and> coroutines evolving_workflows = [''f'', ''run_all'']
   \<and> awaits evolving_workflows = 3"
proof -
  have "coroutines evolving_workflows = [''f'', ''run_all'']" by code_simp
  moreover have "awaits evolving_workflows = 3" by code_simp
  ultimately show ?thesis using in_notebooks(3) by simp
qed

text \<open>
  C7, amended. Nine of the ten notebooks define no \<open>async\<close> function and hold no
  \<open>await\<close>; the evolving-workflows notebook defines the coroutines \<open>f\<close> and \<open>run_all\<close>.
\<close>

theorem notebooks_without_coroutines:
  "map nb_title (filter no_coroutines notebooks) =
     [''Resilience against hardware failures'',
      ''2020 Dask User Survey Results'',
      ''DataFrames: Read and Write Data'',
      ''Scale Scikit-Learn for Small Data Problems'',
      ''Generalized Linear Models'',
      ''Use Voting Classifiers'',
      ''Dask for Machine Learning'',
      ''Embarrassingly parallel Workloads'',
      ''Analyze web-hosted JSON data'']
   \<and> coroutines evolving_workflows = [''f'', ''run_all'']"
  by code_simp

end
